theory Spec2Isabelle
  imports Complex_Main "HOL-Library.Word" "HOL-Library.Sublist" "HOL-Library.AList"
begin

section \<open>JavaScript strings and values\<close>

text \<open>
  A JavaScript string is a sequence of UTF-16 code units. The literals of the source that
  are not ASCII (the Chinese labels and messages, the emoji of the prompts) are written
  here as their code units; \<open>ascii\<close> embeds a printable ASCII literal.
\<close>

type_synonym jsstring = "16 word list"

definition ascii :: "string \<Rightarrow> jsstring" where
  "ascii s = map of_char s"

text \<open>The decimal text of a non-negative integer, as a template literal prints an HTTP status.\<close>

fun Number_toString :: "nat \<Rightarrow> jsstring" where
  "Number_toString n =
     (if n < 10 then [of_nat (48 + n)]
      else Number_toString (n div 10) @ [of_nat (48 + n mod 10)])"

declare Number_toString.simps [simp del]

text \<open>
  The values that \<open>JSON.parse\<close> and \<open>response.json()\<close> produce, and \<open>undefined\<close>, which
  reading an absent property gives. An object is the list of its own properties; a lookup
  takes the first pair with the key. Numbers are IEEE doubles in the source: every finite
  double is a real, and the only thing the code asks of a number is whether it is zero.
\<close>

datatype jsval =
    Undefined
  | JNull
  | JBool bool
  | JNum real
  | JStr jsstring
  | JArr "jsval list"
  | JObj "(jsstring \<times> jsval) list"

text \<open>
  What a rejected promise or a \<open>throw\<close> carries: an \<open>Error\<close> with its message (the
  errors this code constructs, and those of the host), or the \<open>TypeError\<close> of the engine
  for using a property of \<open>null\<close>/\<open>undefined\<close> or calling what is not a function (it
  carries the name of the property).
\<close>

datatype error = Error jsstring | TypeError jsstring

text \<open>Truthiness, as \<open>!x\<close>, \<open>x || y\<close> and \<open>x ? a : b\<close> test it.\<close>

fun truthy :: "jsval \<Rightarrow> bool" where
  "truthy Undefined = False"
| "truthy JNull = False"
| "truthy (JBool b) = b"
| "truthy (JNum r) = (r \<noteq> 0)"
| "truthy (JStr s) = (s \<noteq> [])"
| "truthy (JArr xs) = True"
| "truthy (JObj kvs) = True"

text \<open>\<open>a || b\<close>\<close>

definition or_else :: "jsval \<Rightarrow> jsval \<Rightarrow> jsval" where
  "or_else a b = (if truthy a then a else b)"

text \<open>
  \<open>v.name\<close> for a property name that no prototype defines and that is not an index
  (\<open>error\<close>, \<open>message\<close>, \<open>choices\<close>, \<open>content\<close>, \<open>providers\<close>): a TypeError on
  \<open>null\<close> and \<open>undefined\<close>, the own property of an object, \<open>undefined\<close> otherwise.
\<close>

fun get_prop :: "jsval \<Rightarrow> jsstring \<Rightarrow> error + jsval" where
  "get_prop Undefined name = Inl (TypeError name)"
| "get_prop JNull name = Inl (TypeError name)"
| "get_prop (JObj kvs) name = Inr (case map_of kvs name of None \<Rightarrow> Undefined | Some v \<Rightarrow> v)"
| "get_prop v name = Inr Undefined"

text \<open>\<open>v?.name\<close>: \<open>undefined\<close> when \<open>v\<close> is \<open>null\<close> or \<open>undefined\<close>, else \<open>v.name\<close>.\<close>

fun optional_prop :: "jsval \<Rightarrow> jsstring \<Rightarrow> jsval" where
  "optional_prop (JObj kvs) name = (case map_of kvs name of None \<Rightarrow> Undefined | Some v \<Rightarrow> v)"
| "optional_prop v name = Undefined"

text \<open>
  \<open>v[0]\<close>: the first element of an array, the first code unit of a string, the property
  \<open>"0"\<close> of an object; \<open>undefined\<close> when there is none; a TypeError on \<open>null\<close> and
  \<open>undefined\<close>.
\<close>

fun index0 :: "jsval \<Rightarrow> error + jsval" where
  "index0 Undefined = Inl (TypeError (ascii ''0''))"
| "index0 JNull = Inl (TypeError (ascii ''0''))"
| "index0 (JArr xs) = Inr (case xs of [] \<Rightarrow> Undefined | x # _ \<Rightarrow> x)"
| "index0 (JStr s) = Inr (case s of [] \<Rightarrow> Undefined | c # _ \<Rightarrow> JStr [c])"
| "index0 (JObj kvs) = Inr (case map_of kvs (ascii ''0'') of None \<Rightarrow> Undefined | Some v \<Rightarrow> v)"
| "index0 v = Inr Undefined"

text \<open>\<open>xs.join(sep)\<close> on an array of strings, and \<open>s.split(c)[0]\<close> for a one-unit separator.\<close>

fun join :: "jsstring \<Rightarrow> jsstring list \<Rightarrow> jsstring" where
  "join sep [] = []"
| "join sep [x] = x"
| "join sep (x # y # ys) = x @ sep @ join sep (y # ys)"

definition split_first :: "16 word \<Rightarrow> jsstring \<Rightarrow> jsstring" where
  "split_first c s = takeWhile (\<lambda>u. u \<noteq> c) s"

section \<open>The data model (types.ts)\<close>

datatype ReportType = weekly | monthly | yearly

datatype AIProviderType = gemini | deepseek

datatype language = zh | en

datatype sentiment = positive | neutral | negative

record AIProviderConfig =
  provider_type :: AIProviderType
  apiKey :: jsstring
  model :: jsstring
  enabled :: bool

text \<open>
  \<open>providers\<close> is an object with exactly the keys \<open>gemini\<close> and \<open>deepseek\<close>, read as
  \<open>providers[activeProvider]\<close>: a function on \<open>AIProviderType\<close>.
\<close>

record AppSettings =
  activeProvider :: AIProviderType
  providers :: "AIProviderType \<Rightarrow> AIProviderConfig"
  language :: language
  autoAnalyze :: bool

record aiAnalysis =
  ai_suggestions :: "jsstring list option"
  ai_keywords :: "jsstring list option"

record Entry =
  entry_id :: jsstring
  title :: jsstring
  content :: jsstring
  date :: jsstring
  updatedAt :: jsstring
  tags :: "jsstring list"
  sentiment :: "sentiment option"
  sentimentScore :: "real option"
  summary :: "jsstring option"
  mood :: "jsstring option"
  aiAnalysis :: "aiAnalysis option"

section \<open>The host: transport, vendor SDK, JSON, console\<close>

text \<open>The argument of \<open>fetch\<close>; \<open>body\<close> is the value given to \<open>JSON.stringify\<close>.\<close>

record fetch_request =
  url :: jsstring
  http_method :: jsstring
  headers :: "(jsstring \<times> jsstring) list"
  body :: jsval

text \<open>
  The response of \<open>fetch\<close>: its status and what \<open>response.json()\<close> settles to.
  \<open>response.ok\<close> is true for the statuses 200 to 299.
\<close>

record http_response =
  status :: nat
  json :: "error + jsval"

definition ok :: "http_response \<Rightarrow> bool" where
  "ok response = (200 \<le> status response \<and> status response \<le> 299)"

datatype Type = OBJECT | STRING | INTEGER | ARRAY

datatype Schema =
  Schema
    (schema_type: Type)
    (enum: "jsstring list option")
    (description: "jsstring option")
    (items: "Schema option")
    (properties: "(jsstring \<times> Schema) list")
    (required: "jsstring list")

record GoogleGenAI =
  client_apiKey :: jsstring

record generation_config =
  responseMimeType :: "jsstring option"
  responseSchema :: "Schema option"
  systemInstruction :: "jsstring option"

record generate_params =
  params_model :: jsstring
  contents :: jsstring
  config :: "generation_config option"

text \<open>The response of \<open>ai.models.generateContent\<close>: its \<open>text\<close> is a string or \<open>undefined\<close>.\<close>

record generate_response =
  response_text :: "jsstring option"

text \<open>
  The host a call runs on. \<open>fetch\<close> and \<open>generateContent\<close> answer a request with a
  response or a rejection; \<open>ToString\<close> is the conversion of a value that is not a string
  to a string (in a template literal, or as the argument of \<open>JSON.parse\<close>).
\<close>

record host =
  fetch :: "fetch_request \<Rightarrow> error + http_response"
  generateContent :: "GoogleGenAI \<Rightarrow> generate_params \<Rightarrow> error + generate_response"
  JSON_parse :: "jsstring \<Rightarrow> error + jsval"
  JSON_stringify :: "jsval \<Rightarrow> jsstring"
  ToString :: "jsval \<Rightarrow> jsstring"

definition to_string :: "host \<Rightarrow> jsval \<Rightarrow> jsstring" where
  "to_string H v = (case v of JStr s \<Rightarrow> s | _ \<Rightarrow> ToString H v)"

datatype call = Fetch fetch_request | GenerateContent GoogleGenAI generate_params

text \<open>
  What a call can observe or change: the settings object of the caller (passed by
  reference), the requests sent so far, the lines written with \<open>console.error\<close>, and the
  browser's \<open>localStorage\<close>.
\<close>

record world =
  settings :: AppSettings
  calls :: "call list"
  console :: "(jsstring \<times> error) list"
  localStorage :: "jsstring \<Rightarrow> jsstring option"

section \<open>Prompts (geminiService.ts)\<close>

definition analysisSchema :: Schema where
  "analysisSchema =
     Schema OBJECT None None None
       [(ascii ''sentiment'',
           Schema STRING (Some [ascii ''positive'', ascii ''neutral'', ascii ''negative''])
             (Some (ascii ''The overall sentiment of the text.'')) None [] []),
        (ascii ''sentimentScore'',
           Schema INTEGER None
             (Some (ascii ''A score from 0 to 100 representing positivity.'')) None [] []),
        (ascii ''summary'',
           Schema STRING None
             (Some (ascii ''A concise summary of the diary entry (max 2 sentences).''))
             None [] []),
        (ascii ''tags'',
           Schema ARRAY None
             (Some (ascii ''Relevant topics or keywords extracted from the text.''))
             (Some (Schema STRING None None None [] [])) [] []),
        (ascii ''mood'',
           Schema STRING None
             (Some (ascii ''A single emoji representing the mood.'')) None [] []),
        (ascii ''suggestions'',
           Schema ARRAY None
             (Some (ascii ''Writing improvements or reflective questions based on the content.''))
             (Some (Schema STRING None None None [] [])) [] [])]
       [ascii ''sentiment'', ascii ''sentimentScore'', ascii ''summary'', ascii ''tags'',
        ascii ''mood'', ascii ''suggestions'']"

text \<open>
  The titles are U+5468 U+62A5, U+6708 U+62A5 and U+5E74 U+5EA6 U+62A5 U+544A; in the
  prompts a line break is the unit 0x000A and an emoji outside the basic plane is its
  surrogate pair.
\<close>

definition weekly_title :: jsstring where
  "weekly_title =
     [0x5468, 0x62A5]"

definition weekly_prompt :: jsstring where
  "weekly_prompt =
     ascii ''Generate a weekly summary report based on the following diary '' @
     ascii ''entries. '' @ [0x000A] @
     ascii ''Identify recurring themes, emotional trends, and key events.'' @ [0x000A] @
     ascii ''Provide actionable insights and encouragement.'' @ [0x000A] @
     ascii ''Format in Markdown with sections: '' @ [0x000A] @ ascii ''- '' @
     [0xD83D, 0xDCCA] @ ascii '' '' @ [0x672C, 0x5468, 0x6982, 0x89C8] @
     ascii '' (Overview)'' @ [0x000A] @ ascii ''- '' @ [0xD83D, 0xDCAD] @ ascii '' '' @
     [0x60C5, 0x7EEA, 0x8D8B, 0x52BF] @ ascii '' (Emotional Trends)'' @ [0x000A] @
     ascii ''- '' @ [0xD83C, 0xDFAF] @ ascii '' '' @ [0x4E3B, 0x8981, 0x8BDD, 0x9898] @
     ascii '' (Key Topics)'' @ [0x000A] @ ascii ''- '' @ [0xD83D, 0xDCA1] @ ascii '' '' @
     [0x6D1E, 0x5BDF, 0x4E0E, 0x5EFA, 0x8BAE] @ ascii '' (Insights & Suggestions)'' @
     [0x000A] @ ascii ''- '' @ [0x2728] @ ascii '' '' @ [0x4E0B, 0x5468, 0x5C55, 0x671B] @
     ascii '' (Looking Ahead)''"

definition monthly_title :: jsstring where
  "monthly_title =
     [0x6708, 0x62A5]"

definition monthly_prompt :: jsstring where
  "monthly_prompt =
     ascii ''Generate a monthly summary report based on the following diary '' @
     ascii ''entries.'' @ [0x000A] @
     ascii ''Analyze the overall emotional journey, identify patterns and '' @
     ascii ''growth areas.'' @ [0x000A] @ ascii ''Format in Markdown with sections:'' @
     [0x000A] @ ascii ''- '' @ [0xD83D, 0xDCC5] @ ascii '' '' @
     [0x672C, 0x6708, 0x56DE, 0x987E] @ ascii '' (Monthly Overview)'' @ [0x000A] @
     ascii ''- '' @ [0xD83D, 0xDCC8] @ ascii '' '' @
     [0x60C5, 0x7EEA, 0x53D8, 0x5316, 0x66F2, 0x7EBF] @ ascii '' (Emotional Journey)'' @
     [0x000A] @ ascii ''- '' @ [0xD83C, 0xDFC6] @ ascii '' '' @
     [0x672C, 0x6708, 0x6210, 0x5C31] @ ascii '' (Achievements)'' @ [0x000A] @
     ascii ''- '' @ [0xD83D, 0xDD04] @ ascii '' '' @
     [0x53CD, 0x590D, 0x51FA, 0x73B0, 0x7684, 0x4E3B, 0x9898] @
     ascii '' (Recurring Themes)'' @ [0x000A] @ ascii ''- '' @ [0xD83C, 0xDF31] @
     ascii '' '' @ [0x6210, 0x957F, 0x4E0E, 0x53D8, 0x5316] @
     ascii '' (Growth & Changes)'' @ [0x000A] @ ascii ''- '' @ [0xD83D, 0xDCAA] @
     ascii '' '' @ [0x4E0B, 0x6708, 0x76EE, 0x6807, 0x5EFA, 0x8BAE] @
     ascii '' (Goals for Next Month)''"

definition yearly_title :: jsstring where
  "yearly_title =
     [0x5E74, 0x5EA6, 0x62A5, 0x544A]"

definition yearly_prompt :: jsstring where
  "yearly_prompt =
     ascii ''Generate a comprehensive yearly review based on the following '' @
     ascii ''diary entries.'' @ [0x000A] @
     ascii ''This is a deep reflection on the entire year'' @ [0x0027] @
     ascii ''s journey.'' @ [0x000A] @ ascii ''Format in Markdown with sections:'' @
     [0x000A] @ ascii ''- '' @ [0xD83C, 0xDF8A] @ ascii '' '' @
     [0x5E74, 0x5EA6, 0x603B, 0x7ED3] @ ascii '' (Year in Review)'' @ [0x000A] @
     ascii ''- '' @ [0xD83D, 0xDCCA] @ ascii '' '' @
     [0x60C5, 0x7EEA, 0x5168, 0x666F, 0x56FE] @ ascii '' (Emotional Landscape)'' @
     [0x000A] @ ascii ''- '' @ [0x2B50] @ ascii '' '' @
     [0x5E74, 0x5EA6, 0x9AD8, 0x5149, 0x65F6, 0x523B] @
     ascii '' (Highlights of the Year)'' @ [0x000A] @ ascii ''- '' @ [0xD83C, 0xDF93] @
     ascii '' '' @ [0x5B66, 0x5230, 0x7684, 0x4EBA, 0x751F, 0x7ECF, 0x9A8C] @
     ascii '' (Life Lessons Learned)'' @ [0x000A] @ ascii ''- '' @ [0xD83D, 0xDD2E] @
     ascii '' '' @ [0x4E2A, 0x4EBA, 0x6210, 0x957F, 0x8F68, 0x8FF9] @
     ascii '' (Personal Growth Trajectory)'' @ [0x000A] @ ascii ''- '' @ [0xD83D, 0xDCAB] @
     ascii '' '' @ [0x65B0, 0x5E74, 0x5BC4, 0x8BED] @
     ascii '' (Message for the New Year)''"

definition ANALYSIS_PROMPT :: jsstring where
  "ANALYSIS_PROMPT =
     ascii ''Analyze the following diary entry. Provide sentiment analysis, a '' @
     ascii ''brief summary, extract relevant tags, identify the mood (as an '' @
     ascii ''emoji), and offer 1-2 writing suggestions or reflective questions.'' @
     [0x000A, 0x000A] @ ascii ''Entry:'' @ [0x000A]"

definition SYSTEM_INSTRUCTION_ANALYSIS :: jsstring where
  "SYSTEM_INSTRUCTION_ANALYSIS =
     ascii ''You are an empathetic, insightful personal diary assistant. Your '' @
     ascii ''goal is to help the user organize their thoughts and gain '' @
     ascii ''insights. Always respond in Chinese.''"

definition SYSTEM_INSTRUCTION_REPORT :: jsstring where
  "SYSTEM_INSTRUCTION_REPORT =
     ascii ''You are a professional life coach and analyst. Provide a warm, '' @
     ascii ''encouraging, but analytical summary. Always respond in Chinese.''"

definition ANALYSIS_FORMAT :: jsstring where
  "ANALYSIS_FORMAT =
     [0x000A, 0x000A] @ ascii ''Please respond with a JSON object containing:'' @
     [0x000A] @ ascii ''- sentiment: '' @ [0x0022] @ ascii ''positive'' @ [0x0022] @
     ascii '', '' @ [0x0022] @ ascii ''neutral'' @ [0x0022] @ ascii '', or '' @ [0x0022] @
     ascii ''negative'' @ [0x0022, 0x000A] @
     ascii ''- sentimentScore: number from 0 to 100'' @ [0x000A] @
     ascii ''- summary: brief summary in Chinese (max 2 sentences)'' @ [0x000A] @
     ascii ''- tags: array of relevant tags in Chinese'' @ [0x000A] @
     ascii ''- mood: a single emoji'' @ [0x000A] @
     ascii ''- suggestions: array of 1-2 suggestions or questions in Chinese''"

record report_info =
  info_title :: jsstring
  info_prompt :: jsstring

fun REPORT_PROMPTS :: "ReportType \<Rightarrow> report_info" where
  "REPORT_PROMPTS weekly = \<lparr>info_title = weekly_title, info_prompt = weekly_prompt\<rparr>"
| "REPORT_PROMPTS monthly = \<lparr>info_title = monthly_title, info_prompt = monthly_prompt\<rparr>"
| "REPORT_PROMPTS yearly = \<lparr>info_title = yearly_title, info_prompt = yearly_prompt\<rparr>"

section \<open>The DeepSeek adapter\<close>

record DeepSeekAdapter =
  ds_apiKey :: jsstring
  ds_model :: jsstring
  baseUrl :: jsstring

definition new_DeepSeekAdapter :: "jsstring \<Rightarrow> jsstring \<Rightarrow> DeepSeekAdapter" where
  "new_DeepSeekAdapter key mdl =
     \<lparr>ds_apiKey = key, ds_model = mdl, baseUrl = ascii ''https://api.deepseek.com''\<rparr>"

text \<open>
  \<open>chat\<close> sends one POST and records it. A rejected \<open>fetch\<close> is the result. On a status
  that is not \<open>ok\<close>, the body read as JSON (\<open>{}\<close> when it cannot be read) gives the
  message of the error thrown; \<open>error.error\<close> on a body that is \<open>null\<close> is a TypeError.
  On success the result is \<open>data.choices[0]?.message?.content || ''\<close>.
\<close>

definition chat_request ::
  "DeepSeekAdapter \<Rightarrow> jsstring \<Rightarrow> jsstring \<Rightarrow> bool \<Rightarrow> fetch_request" where
  "chat_request this systemPrompt userPrompt jsonMode =
     \<lparr>url = baseUrl this @ ascii ''/chat/completions'',
      http_method = ascii ''POST'',
      headers =
        [(ascii ''Content-Type'', ascii ''application/json''),
         (ascii ''Authorization'', ascii ''Bearer '' @ ds_apiKey this)],
      body =
        JObj ([(ascii ''model'', JStr (ds_model this)),
               (ascii ''messages'',
                  JArr [JObj [(ascii ''role'', JStr (ascii ''system'')),
                              (ascii ''content'',
                                 JStr (systemPrompt @
                                   (if jsonMode
                                    then [0x000A, 0x000A] @
                                         ascii ''You must respond with valid JSON only.''
                                    else [])))],
                        JObj [(ascii ''role'', JStr (ascii ''user'')),
                              (ascii ''content'', JStr userPrompt)]]),
               (ascii ''stream'', JBool False)] @
              (if jsonMode
               then [(ascii ''response_format'',
                        JObj [(ascii ''type'', JStr (ascii ''json_object''))])]
               else []))\<rparr>"

definition DeepSeekAdapter_chat ::
  "host \<Rightarrow> DeepSeekAdapter \<Rightarrow> jsstring \<Rightarrow> jsstring \<Rightarrow> bool \<Rightarrow> world \<Rightarrow> (error + jsval) \<times> world" where
  "DeepSeekAdapter_chat H this systemPrompt userPrompt jsonMode w =
     (let request = chat_request this systemPrompt userPrompt jsonMode;
          w' = w\<lparr>calls := calls w @ [Fetch request]\<rparr>
      in case fetch H request of
           Inl e \<Rightarrow> (Inl e, w')
         | Inr response \<Rightarrow>
             if \<not> ok response then
               (let error = (case json response of Inl e \<Rightarrow> JObj [] | Inr v \<Rightarrow> v)
                in case get_prop error (ascii ''error'') of
                     Inl e \<Rightarrow> (Inl e, w')
                   | Inr detail \<Rightarrow>
                       (Inl (Error (ascii ''DeepSeek API Error: '' @
                                    Number_toString (status response) @ ascii '' - '' @
                                    to_string H
                                      (or_else (optional_prop detail (ascii ''message''))
                                         (JStr (ascii ''Unknown error''))))), w'))
             else
               (case json response of
                  Inl e \<Rightarrow> (Inl e, w')
                | Inr data \<Rightarrow>
                    (case get_prop data (ascii ''choices'') of
                       Inl e \<Rightarrow> (Inl e, w')
                     | Inr choices \<Rightarrow>
                         (case index0 choices of
                            Inl e \<Rightarrow> (Inl e, w')
                          | Inr choice \<Rightarrow>
                              (Inr (or_else
                                      (optional_prop (optional_prop choice (ascii ''message''))
                                         (ascii ''content''))
                                      (JStr [])), w')))))"

text \<open>
  The prompt of \<open>analyzeEntry\<close> ends with the fixed description of the JSON object
  wanted (\<open>ANALYSIS_FORMAT\<close>, the tail of the template literal). The result of \<open>chat\<close>
  goes to \<open>JSON.parse\<close>, which converts it to a string first.
\<close>

definition DeepSeekAdapter_analyzeEntry ::
  "host \<Rightarrow> DeepSeekAdapter \<Rightarrow> jsstring \<Rightarrow> world \<Rightarrow> (error + jsval) \<times> world" where
  "DeepSeekAdapter_analyzeEntry H this text w =
     (let prompt = ANALYSIS_PROMPT @ text @ ANALYSIS_FORMAT
      in case DeepSeekAdapter_chat H this SYSTEM_INSTRUCTION_ANALYSIS prompt True w of
           (Inl e, w') \<Rightarrow> (Inl e, w')
         | (Inr result, w') \<Rightarrow> (JSON_parse H (to_string H result), w'))"

text \<open>
  One entry of the context of a report. The labels of the template literal are
  U+65E5 U+671F (date), U+6807 U+9898 (title) and U+5185 U+5BB9 (content), each followed
  by a colon and a space; the date is \<open>e.date.split('T')[0]\<close>.
\<close>

definition entry_block :: "Entry \<Rightarrow> jsstring" where
  "entry_block e =
     [0x65E5, 0x671F] @ ascii '': '' @ split_first 0x0054 (date e) @
     [0x000A, 0x6807, 0x9898] @ ascii '': '' @ title e @
     [0x000A, 0x5185, 0x5BB9] @ ascii '': '' @ content e"

text \<open>\<open>entries.map(...).join('\n---\n')\<close>\<close>

definition entries_context :: "Entry list \<Rightarrow> jsstring" where
  "entries_context entries = join ([0x000A] @ ascii ''---'' @ [0x000A]) (map entry_block entries)"

text \<open>
  The full prompt of a report: the prompt of the report type, a blank line, the header
  U+65E5 U+8BB0 U+6761 U+76EE with a colon, a line break, and the context.
\<close>

definition report_prompt :: "ReportType \<Rightarrow> Entry list \<Rightarrow> jsstring" where
  "report_prompt reportType entries =
     info_prompt (REPORT_PROMPTS reportType) @
     [0x000A, 0x000A, 0x65E5, 0x8BB0, 0x6761, 0x76EE] @ ascii '':'' @ [0x000A] @
     entries_context entries"

text \<open>
  The string returned for no entries is
  U+6CA1 U+6709 U+53EF U+5206 U+6790 U+7684 U+65E5 U+8BB0 U+6761 U+76EE U+3002.
\<close>

definition DeepSeekAdapter_generateReport ::
  "host \<Rightarrow> DeepSeekAdapter \<Rightarrow> Entry list \<Rightarrow> ReportType \<Rightarrow> world \<Rightarrow> (error + jsval) \<times> world" where
  "DeepSeekAdapter_generateReport H this entries reportType w =
     (if entries = [] then
        (Inr (JStr [0x6CA1, 0x6709, 0x53EF, 0x5206, 0x6790, 0x7684, 0x65E5, 0x8BB0, 0x6761,
                    0x76EE, 0x3002]), w)
      else
        DeepSeekAdapter_chat H this SYSTEM_INSTRUCTION_REPORT
          (report_prompt reportType entries) False w)"

section \<open>The Gemini adapter\<close>

text \<open>
  The constructor wraps a client made from the key; making the client sends nothing and
  does not fail for a key that is a string.
\<close>

record GeminiAdapter =
  ai :: GoogleGenAI
  gm_model :: jsstring

definition new_GeminiAdapter :: "jsstring \<Rightarrow> jsstring \<Rightarrow> GeminiAdapter" where
  "new_GeminiAdapter key mdl = \<lparr>ai = \<lparr>client_apiKey = key\<rparr>, gm_model = mdl\<rparr>"

definition analysis_params :: "GeminiAdapter \<Rightarrow> jsstring \<Rightarrow> generate_params" where
  "analysis_params this text =
     \<lparr>params_model = gm_model this,
      contents = ANALYSIS_PROMPT @ text,
      config =
        Some \<lparr>responseMimeType = Some (ascii ''application/json''),
              responseSchema = Some analysisSchema,
              systemInstruction = Some SYSTEM_INSTRUCTION_ANALYSIS\<rparr>\<rparr>"

definition report_params :: "GeminiAdapter \<Rightarrow> ReportType \<Rightarrow> Entry list \<Rightarrow> generate_params" where
  "report_params this reportType entries =
     \<lparr>params_model = gm_model this,
      contents = report_prompt reportType entries,
      config =
        Some \<lparr>responseMimeType = None,
              responseSchema = None,
              systemInstruction = Some SYSTEM_INSTRUCTION_REPORT\<rparr>\<rparr>"

definition GeminiAdapter_analyzeEntry ::
  "host \<Rightarrow> GeminiAdapter \<Rightarrow> jsstring \<Rightarrow> world \<Rightarrow> (error + jsval) \<times> world" where
  "GeminiAdapter_analyzeEntry H this text w =
     (let params = analysis_params this text;
          w' = w\<lparr>calls := calls w @ [GenerateContent (ai this) params]\<rparr>
      in case generateContent H (ai this) params of
           Inl e \<Rightarrow> (Inl e, w')
         | Inr response \<Rightarrow>
             (case response_text response of
                None \<Rightarrow> (Inl (Error (ascii ''No response from Gemini AI'')), w')
              | Some jsonText \<Rightarrow>
                  if jsonText = [] then (Inl (Error (ascii ''No response from Gemini AI'')), w')
                  else (JSON_parse H jsonText, w')))"

text \<open>
  The placeholder returned for a response without text is
  U+65E0 U+6CD5 U+751F U+6210 U+62A5 U+544A U+3002.
\<close>

definition GeminiAdapter_generateReport ::
  "host \<Rightarrow> GeminiAdapter \<Rightarrow> Entry list \<Rightarrow> ReportType \<Rightarrow> world \<Rightarrow> (error + jsval) \<times> world" where
  "GeminiAdapter_generateReport H this entries reportType w =
     (if entries = [] then
        (Inr (JStr [0x6CA1, 0x6709, 0x53EF, 0x5206, 0x6790, 0x7684, 0x65E5, 0x8BB0, 0x6761,
                    0x76EE, 0x3002]), w)
      else
        (let params = report_params this reportType entries;
             w' = w\<lparr>calls := calls w @ [GenerateContent (ai this) params]\<rparr>
         in case generateContent H (ai this) params of
              Inl e \<Rightarrow> (Inl e, w')
            | Inr response \<Rightarrow>
                (Inr (JStr (case response_text response of
                              None \<Rightarrow> [0x65E0, 0x6CD5, 0x751F, 0x6210, 0x62A5, 0x544A, 0x3002]
                            | Some t \<Rightarrow>
                                if t = []
                                then [0x65E0, 0x6CD5, 0x751F, 0x6210, 0x62A5, 0x544A, 0x3002]
                                else t)), w')))"

section \<open>The provider service\<close>

text \<open>\<open>activeProvider.toUpperCase()\<close>\<close>

fun toUpperCase :: "AIProviderType \<Rightarrow> jsstring" where
  "toUpperCase gemini = ascii ''GEMINI''"
| "toUpperCase deepseek = ascii ''DEEPSEEK''"

fun provider_name :: "AIProviderType \<Rightarrow> jsstring" where
  "provider_name gemini = ascii ''gemini''"
| "provider_name deepseek = ascii ''deepseek''"

text \<open>
  The two configuration errors. The first message is U+8BF7 U+5148 U+914D U+7F6E, a space,
  the provider in upper case, a space, U+7684 and \<open>API Key\<close>; the second is the provider
  in upper case, a space and U+63D0 U+4F9B U+5546 U+672A U+542F U+7528.
\<close>

definition missing_key_error :: "AIProviderType \<Rightarrow> error" where
  "missing_key_error p =
     Error ([0x8BF7, 0x5148, 0x914D, 0x7F6E] @ ascii '' '' @ toUpperCase p @
            ascii '' '' @ [0x7684] @ ascii '' API Key'')"

definition not_enabled_error :: "AIProviderType \<Rightarrow> error" where
  "not_enabled_error p =
     Error (toUpperCase p @ ascii '' '' @ [0x63D0, 0x4F9B, 0x5546, 0x672A, 0x542F, 0x7528])"

text \<open>
  The \<open>catch\<close> of both operations writes the error to the console and throws it again.
\<close>

definition log_and_rethrow ::
  "jsstring \<Rightarrow> (error + 'a) \<times> world \<Rightarrow> (error + 'a) \<times> world" where
  "log_and_rethrow label r =
     (case r of
        (Inl e, w') \<Rightarrow> (Inl e, w'\<lparr>console := console w' @ [(label, e)]\<rparr>)
      | (Inr v, w') \<Rightarrow> (Inr v, w'))"

definition analyzeEntry :: "host \<Rightarrow> jsstring \<Rightarrow> world \<Rightarrow> (error + jsval) \<times> world" where
  "analyzeEntry H text w =
     (let activeProvider = activeProvider (settings w);
          providerConfig = providers (settings w) activeProvider
      in if apiKey providerConfig = [] then (Inl (missing_key_error activeProvider), w)
         else if \<not> enabled providerConfig then (Inl (not_enabled_error activeProvider), w)
         else
           log_and_rethrow
             (ascii ''AI Analysis Failed ('' @ provider_name activeProvider @ ascii ''):'')
             (if activeProvider = deepseek then
                DeepSeekAdapter_analyzeEntry H
                  (new_DeepSeekAdapter (apiKey providerConfig) (model providerConfig)) text w
              else
                GeminiAdapter_analyzeEntry H
                  (new_GeminiAdapter (apiKey providerConfig) (model providerConfig)) text w))"

definition generateReport ::
  "host \<Rightarrow> Entry list \<Rightarrow> ReportType \<Rightarrow> world \<Rightarrow> (error + jsval) \<times> world" where
  "generateReport H entries reportType w =
     (let activeProvider = activeProvider (settings w);
          providerConfig = providers (settings w) activeProvider
      in if apiKey providerConfig = [] then (Inl (missing_key_error activeProvider), w)
         else if \<not> enabled providerConfig then (Inl (not_enabled_error activeProvider), w)
         else
           log_and_rethrow
             (ascii ''Report Generation Failed ('' @ provider_name activeProvider @ ascii ''):'')
             (if activeProvider = deepseek then
                DeepSeekAdapter_generateReport H
                  (new_DeepSeekAdapter (apiKey providerConfig) (model providerConfig))
                  entries reportType w
              else
                GeminiAdapter_generateReport H
                  (new_GeminiAdapter (apiKey providerConfig) (model providerConfig))
                  entries reportType w))"

definition getModels :: "AIProviderType \<Rightarrow> jsstring list" where
  "getModels provider =
     (if provider = deepseek then [ascii ''deepseek-chat'', ascii ''deepseek-reasoner'']
      else [ascii ''gemini-2.0-flash'', ascii ''gemini-2.0-flash-lite'', ascii ''gemini-1.5-pro''])"

text \<open>
  \<open>validateApiKey\<close>: everything is inside one \<open>try\<close> whose \<open>catch\<close> returns \<open>false\<close>.
  The probe texts are \<open>Say "OK" if you can hear me.\<close> and \<open>Say "OK"\<close>.
\<close>

definition probe_params :: generate_params where
  "probe_params =
     \<lparr>params_model = ascii ''gemini-2.0-flash'',
      contents = ascii ''Say '' @ [0x0022] @ ascii ''OK'' @ [0x0022],
      config = None\<rparr>"

definition validateApiKey ::
  "host \<Rightarrow> AIProviderType \<Rightarrow> jsstring \<Rightarrow> world \<Rightarrow> (error + bool) \<times> world" where
  "validateApiKey H provider key w =
     (if provider = deepseek then
        (case DeepSeekAdapter_chat H (new_DeepSeekAdapter key (ascii ''deepseek-chat''))
                (ascii ''You are a test assistant.'')
                (ascii ''Say '' @ [0x0022] @ ascii ''OK'' @ [0x0022] @ ascii '' if you can hear me.'')
                False w of
           (Inl e, w') \<Rightarrow> (Inr False, w')
         | (Inr v, w') \<Rightarrow> (Inr True, w'))
      else
        (let client = \<lparr>client_apiKey = key\<rparr>;
             params = probe_params;
             w' = w\<lparr>calls := calls w @ [GenerateContent client params]\<rparr>
         in case generateContent H client params of
              Inl e \<Rightarrow> (Inr False, w')
            | Inr response \<Rightarrow> (Inr True, w')))"

definition getReportTypeInfo :: "ReportType \<Rightarrow> report_info" where
  "getReportTypeInfo t = REPORT_PROMPTS t"

section \<open>The storage service (storageService.ts)\<close>

definition SETTINGS_KEY :: jsstring where
  "SETTINGS_KEY = ascii ''lumina_diary_settings''"

definition REPORTS_KEY :: jsstring where
  "REPORTS_KEY = ascii ''lumina_diary_reports''"

text \<open>
  \<open>DEFAULT_SETTINGS\<close> of types.ts, as the object it is at run time: \<open>loadSettings\<close> merges
  it with whatever \<open>JSON.parse\<close> returned, and its declared result type is not checked.
\<close>

definition DEFAULT_PROVIDERS :: jsval where
  "DEFAULT_PROVIDERS =
     JObj [(ascii ''gemini'',
              JObj [(ascii ''type'', JStr (ascii ''gemini'')),
                    (ascii ''apiKey'', JStr []),
                    (ascii ''model'', JStr (ascii ''gemini-2.0-flash'')),
                    (ascii ''enabled'', JBool False)]),
           (ascii ''deepseek'',
              JObj [(ascii ''type'', JStr (ascii ''deepseek'')),
                    (ascii ''apiKey'', JStr []),
                    (ascii ''model'', JStr (ascii ''deepseek-chat'')),
                    (ascii ''enabled'', JBool True)])]"

definition DEFAULT_SETTINGS :: jsval where
  "DEFAULT_SETTINGS =
     JObj [(ascii ''activeProvider'', JStr (ascii ''deepseek'')),
           (ascii ''providers'', DEFAULT_PROVIDERS),
           (ascii ''language'', JStr (ascii ''zh'')),
           (ascii ''autoAnalyze'', JBool False)]"

text \<open>
  The properties that \<open>...v\<close> copies into an object literal: the own properties of an
  object, the elements of an array and the code units of a string under their indices,
  nothing for any other value (\<open>null\<close> and \<open>undefined\<close> included).
\<close>

fun spread :: "jsval \<Rightarrow> (jsstring \<times> jsval) list" where
  "spread (JObj kvs) = kvs"
| "spread (JArr xs) = zip (map Number_toString [0..<length xs]) xs"
| "spread (JStr s) = zip (map Number_toString [0..<length s]) (map (\<lambda>c. JStr [c]) s)"
| "spread v = []"

text \<open>
  An object literal is built from left to right; a property given again takes the new
  value. (The list keeps the order of first definition; nothing below depends on the
  order in which properties are enumerated.)
\<close>

definition assign :: "(jsstring \<times> jsval) list \<Rightarrow> (jsstring \<times> jsval) list \<Rightarrow> (jsstring \<times> jsval) list" where
  "assign target source = fold (\<lambda>(k, v). AList.update k v) source target"

text \<open>
  \<open>loadSettings\<close>: the defaults when nothing (or the empty string) is stored and when
  anything inside the \<open>try\<close> throws, that is \<open>JSON.parse\<close> or \<open>parsed.providers\<close> on
  \<open>null\<close>; else
  \<open>{ ...DEFAULT_SETTINGS, ...parsed, providers: { ...DEFAULT_SETTINGS.providers, ...parsed.providers } }\<close>.
\<close>

definition loadSettings :: "host \<Rightarrow> world \<Rightarrow> jsval \<times> world" where
  "loadSettings H w =
     (case localStorage w SETTINGS_KEY of
        None \<Rightarrow> (DEFAULT_SETTINGS, w)
      | Some stored \<Rightarrow>
          if stored = [] then (DEFAULT_SETTINGS, w)
          else
            (case JSON_parse H stored of
               Inl e \<Rightarrow>
                 (DEFAULT_SETTINGS,
                  w\<lparr>console := console w @ [(ascii ''Failed to load settings'', e)]\<rparr>)
             | Inr parsed \<Rightarrow>
                 (case get_prop parsed (ascii ''providers'') of
                    Inl e \<Rightarrow>
                      (DEFAULT_SETTINGS,
                       w\<lparr>console := console w @ [(ascii ''Failed to load settings'', e)]\<rparr>)
                  | Inr parsed_providers \<Rightarrow>
                      (JObj (assign (assign (assign [] (spread DEFAULT_SETTINGS)) (spread parsed))
                               [(ascii ''providers'',
                                 JObj (assign (assign [] (spread DEFAULT_PROVIDERS))
                                         (spread parsed_providers)))]), w))))"

text \<open>
  \<open>loadReports\<close> returns what \<open>JSON.parse\<close> gives, whatever it is; the empty array when
  nothing is stored or the text cannot be parsed.
\<close>

definition loadReports :: "host \<Rightarrow> world \<Rightarrow> jsval \<times> world" where
  "loadReports H w =
     (case localStorage w REPORTS_KEY of
        None \<Rightarrow> (JArr [], w)
      | Some stored \<Rightarrow>
          if stored = [] then (JArr [], w)
          else
            (case JSON_parse H stored of
               Inl e \<Rightarrow>
                 (JArr [], w\<lparr>console := console w @ [(ascii ''Failed to load reports'', e)]\<rparr>)
             | Inr v \<Rightarrow> (v, w)))"

text \<open>
  \<open>saveReport\<close>: \<open>reports.unshift(report)\<close> puts the report in front of the array just
  loaded, \<open>slice(0, 50)\<close> keeps its first 50 elements, and \<open>setItem\<close> stores their JSON
  text. On a value that is not an array, \<open>unshift\<close> is not a function.
\<close>

definition saveReport :: "host \<Rightarrow> jsval \<Rightarrow> world \<Rightarrow> (error + unit) \<times> world" where
  "saveReport H report w =
     (case loadReports H w of
        (JArr reports, w') \<Rightarrow>
          (let trimmed = take 50 (report # reports)
           in (Inr (),
               w'\<lparr>localStorage :=
                     (localStorage w')(REPORTS_KEY \<mapsto> JSON_stringify H (JArr trimmed))\<rparr>))
      | (v, w') \<Rightarrow> (Inl (TypeError (ascii ''unshift'')), w'))"

section \<open>What the specification says, for comparison\<close>

text \<open>
  The block of one entry as the specification words it, with the labels \<open>Date\<close>,
  \<open>Title\<close> and \<open>Content\<close>.
\<close>

definition spec_entry_block :: "Entry \<Rightarrow> jsstring" where
  "spec_entry_block e =
     ascii ''Date: '' @ split_first 0x0054 (date e) @
     [0x000A] @ ascii ''Title: '' @ title e @
     [0x000A] @ ascii ''Content: '' @ content e"

text \<open>
  The fields of \<open>AppSettings\<close>, as paths, and the property that each of them has a value
  in a loaded settings object.
\<close>

fun at_path :: "jsval \<Rightarrow> jsstring list \<Rightarrow> jsval" where
  "at_path v [] = v"
| "at_path v (k # ks) = at_path (optional_prop v k) ks"

definition AppSettings_fields :: "jsstring list list" where
  "AppSettings_fields =
     [[ascii ''activeProvider''], [ascii ''language''], [ascii ''autoAnalyze'']] @
     concat (map (\<lambda>p. map (\<lambda>f. [ascii ''providers'', p, f])
                          [ascii ''type'', ascii ''apiKey'', ascii ''model'', ascii ''enabled''])
               [ascii ''gemini'', ascii ''deepseek''])"

definition every_field_defined :: "jsval \<Rightarrow> bool" where
  "every_field_defined v = list_all (\<lambda>path. at_path v path \<noteq> Undefined) AppSettings_fields"

section \<open>Stubs of the host and sample inputs\<close>

text \<open>
  A host that answers every request with the same response, every SDK call with the
  same result, and every \<open>JSON.parse\<close> with the same value.
\<close>

definition stub_host ::
  "(error + http_response) \<Rightarrow> (error + generate_response) \<Rightarrow> (error + jsval) \<Rightarrow> host" where
  "stub_host response generated parsed =
     \<lparr>fetch = (\<lambda>request. response),
      generateContent = (\<lambda>client params. generated),
      JSON_parse = (\<lambda>text. parsed),
      JSON_stringify = (\<lambda>v. ascii ''[]''),
      ToString = (\<lambda>v. ascii ''[object Object]'')\<rparr>"

definition network_down :: error where
  "network_down = Error (ascii ''Failed to fetch'')"

definition offline :: host where
  "offline = stub_host (Inl network_down) (Inl network_down) (Inl network_down)"

text \<open>Settings in which both providers have the given key and enabled flag.\<close>

definition sample_settings :: "AIProviderType \<Rightarrow> jsstring \<Rightarrow> bool \<Rightarrow> AppSettings" where
  "sample_settings active key on =
     \<lparr>activeProvider = active,
      providers =
        (\<lambda>p. \<lparr>provider_type = p, apiKey = key,
               model = (if p = deepseek then ascii ''deepseek-chat'' else ascii ''gemini-2.0-flash''),
               enabled = on\<rparr>),
      language = zh,
      autoAnalyze = False\<rparr>"

definition fresh_world :: "AppSettings \<Rightarrow> world" where
  "fresh_world s = \<lparr>settings = s, calls = [], console = [], localStorage = (\<lambda>k. None)\<rparr>"

definition sample_entry :: Entry where
  "sample_entry =
     \<lparr>entry_id = ascii ''e1'',
      title = ascii ''Walk'',
      content = ascii ''Sunny'',
      date = ascii ''2024-03-05T08:30:00.000Z'',
      updatedAt = ascii ''2024-03-05T09:00:00.000Z'',
      tags = [],
      sentiment = None,
      sentimentScore = None,
      summary = None,
      mood = None,
      aiAnalysis = None\<rparr>"

text \<open>A world in which the given text is stored under the given key.\<close>

definition world_storing :: "jsstring \<Rightarrow> jsstring \<Rightarrow> world" where
  "world_storing key stored =
     \<lparr>settings = sample_settings deepseek [] True, calls = [], console = [],
      localStorage = (\<lambda>k. if k = key then Some stored else None)\<rparr>"

text \<open>
  Settings saved when a provider configuration had only its key:
  \<open>{"providers":{"deepseek":{"apiKey":"sk-old"}}}\<close>, as a value and as the stored text.
\<close>

definition legacy_settings :: jsval where
  "legacy_settings =
     JObj [(ascii ''providers'',
            JObj [(ascii ''deepseek'', JObj [(ascii ''apiKey'', JStr (ascii ''sk-old''))])])]"

definition legacy_settings_text :: jsstring where
  "legacy_settings_text =
     ascii ''{'' @ [0x0022] @ ascii ''providers'' @ [0x0022] @ ascii '':{'' @ [0x0022] @
     ascii ''deepseek'' @ [0x0022] @ ascii '':{'' @ [0x0022] @ ascii ''apiKey'' @ [0x0022] @
     ascii '':'' @ [0x0022] @ ascii ''sk-old'' @ [0x0022] @ ascii ''}}}''"

text \<open>
  A host for the report store. It writes a list of one-field reports as its JSON text
  (\<open>[{"id":"r1"},{"id":"r2"}]\<close>) and reads a text back as the value, among those it is
  given, that has this text; \<open>sample_report n\<close> is the report \<open>{"id":"r<n>"}\<close>.
\<close>

definition sample_report :: "nat \<Rightarrow> jsval" where
  "sample_report n = JObj [(ascii ''id'', JStr (ascii ''r'' @ Number_toString n))]"

definition report_text :: "jsval \<Rightarrow> jsstring" where
  "report_text r =
     (case r of
        JObj [(k, JStr s)] \<Rightarrow>
          ascii ''{'' @ [0x0022] @ k @ [0x0022] @ ascii '':'' @ [0x0022] @ s @ [0x0022] @ ascii ''}''
      | _ \<Rightarrow> ascii ''null'')"

definition reports_text :: "jsval \<Rightarrow> jsstring" where
  "reports_text v =
     (case v of
        JArr rs \<Rightarrow> ascii ''['' @ join (ascii '','') (map report_text rs) @ ascii '']''
      | _ \<Rightarrow> ascii ''null'')"

definition reports_host :: "jsval list \<Rightarrow> host" where
  "reports_host known =
     \<lparr>fetch = (\<lambda>request. Inl network_down),
      generateContent = (\<lambda>client params. Inl network_down),
      JSON_parse =
        (\<lambda>text. case find (\<lambda>v. reports_text v = text) known of
                   Some v \<Rightarrow> Inr v
                 | None \<Rightarrow> Inl (Error (ascii ''Unexpected token''))),
      JSON_stringify = reports_text,
      ToString = (\<lambda>v. ascii ''[object Object]'')\<rparr>"

text \<open>
  A store that is full, with the 50 reports \<open>r1\<close> to \<open>r50\<close>, and what it holds once
  \<open>r0\<close> has been saved: \<open>r0\<close> in front, then \<open>r1\<close> to \<open>r49\<close>.
\<close>

definition full_store :: jsval where
  "full_store = JArr (map sample_report [1..<51])"

definition store_after_save :: jsval where
  "store_after_save = JArr (sample_report 0 # map sample_report [1..<50])"

section \<open>Basic facts\<close>

lemma log_and_rethrow_Inr [simp]: "log_and_rethrow l (Inr v, w) = (Inr v, w)"
  by (simp add: log_and_rethrow_def)

lemma log_and_rethrow_Inl [simp]:
  "log_and_rethrow l (Inl e, w) = (Inl e, w\<lparr>console := console w @ [(l, e)]\<rparr>)"
  by (simp add: log_and_rethrow_def)

lemma join_Cons: "join sep (x # xs) = x @ concat (map (\<lambda>y. sep @ y) xs)"
  by (induction xs arbitrary: x) simp_all

lemma get_prop_not_null:
  "v \<noteq> JNull \<Longrightarrow> v \<noteq> Undefined \<Longrightarrow> get_prop v name = Inr (optional_prop v name)"
  by (cases v) simp_all

lemma Number_toString_500: "Number_toString 500 = ascii ''500''"
  by (simp add: Number_toString.simps ascii_def)

subsection \<open>The chat primitive\<close>

lemma chat_snd:
  "snd (DeepSeekAdapter_chat H a s u j w) = w\<lparr>calls := calls w @ [Fetch (chat_request a s u j)]\<rparr>"
  by (simp add: DeepSeekAdapter_chat_def Let_def split: sum.splits)

lemma chat_calls:
  "calls (snd (DeepSeekAdapter_chat H a s u j w)) = calls w @ [Fetch (chat_request a s u j)]"
  by (simp add: chat_snd)

lemma chat_fst:
  "fst (DeepSeekAdapter_chat H a s u j w) = fst (DeepSeekAdapter_chat H a s u j v)"
  by (simp add: DeepSeekAdapter_chat_def Let_def split: sum.splits)

lemma chat_offline:
  "DeepSeekAdapter_chat offline a s u j w =
     (Inl network_down, w\<lparr>calls := calls w @ [Fetch (chat_request a s u j)]\<rparr>)"
  by (simp add: DeepSeekAdapter_chat_def offline_def stub_host_def Let_def)

lemma chat_rejected:
  "fetch H (chat_request a s u j) = Inl e \<Longrightarrow> fst (DeepSeekAdapter_chat H a s u j w) = Inl e"
  by (simp add: DeepSeekAdapter_chat_def Let_def)

lemma chat_not_ok_is_error:
  "fetch H (chat_request a s u j) = Inr r \<Longrightarrow> \<not> ok r \<Longrightarrow>
   \<exists>e. fst (DeepSeekAdapter_chat H a s u j w) = Inl e"
  by (simp add: DeepSeekAdapter_chat_def Let_def split: sum.splits)

lemma chat_unreadable_body:
  "fetch H (chat_request a s u j) = Inr r \<Longrightarrow> ok r \<Longrightarrow> json r = Inl e \<Longrightarrow>
   fst (DeepSeekAdapter_chat H a s u j w) = Inl e"
  by (simp add: DeepSeekAdapter_chat_def Let_def)

lemma chat_ok_result:
  "fetch H (chat_request a s u j) = Inr r \<Longrightarrow> ok r \<Longrightarrow> json r = Inr data \<Longrightarrow>
   get_prop data (ascii ''choices'') = Inr choices \<Longrightarrow> index0 choices = Inr choice \<Longrightarrow>
   fst (DeepSeekAdapter_chat H a s u j w) =
     Inr (or_else (optional_prop (optional_prop choice (ascii ''message'')) (ascii ''content''))
            (JStr []))"
  by (simp add: DeepSeekAdapter_chat_def Let_def)

lemma gemini_report_snd:
  "entries \<noteq> [] \<Longrightarrow>
   snd (GeminiAdapter_generateReport H g entries rt w) =
     w\<lparr>calls := calls w @ [GenerateContent (ai g) (report_params g rt entries)]\<rparr>"
  by (simp add: GeminiAdapter_generateReport_def Let_def split: sum.splits)

section \<open>Precondition checks of the service\<close>

text \<open>
  C1 (amended). For every settings object, \<open>analyzeEntry\<close> and \<open>generateReport\<close> fail
  with the "configure API key" error, leaving the world as it was (no request is sent),
  whenever the \<open>apiKey\<close> of the active provider is the empty string, also when the
  provider is disabled too; and with the "provider not enabled" error, again without any
  request, when the key is not empty and \<open>enabled\<close> is false. A key of white space only
  is not empty and passes the check.
\<close>

theorem preconditions_checked_first:
  "(apiKey (providers (settings w) (activeProvider (settings w))) = [] \<longrightarrow>
      analyzeEntry H t w = (Inl (missing_key_error (activeProvider (settings w))), w) \<and>
      generateReport H entries reportType w =
        (Inl (missing_key_error (activeProvider (settings w))), w)) \<and>
   (apiKey (providers (settings w) (activeProvider (settings w))) \<noteq> [] \<and>
    \<not> enabled (providers (settings w) (activeProvider (settings w))) \<longrightarrow>
      analyzeEntry H t w = (Inl (not_enabled_error (activeProvider (settings w))), w) \<and>
      generateReport H entries reportType w =
        (Inl (not_enabled_error (activeProvider (settings w))), w))"
  by (simp add: analyzeEntry_def generateReport_def Let_def)

theorem preconditions_checked_first_witness:
  "analyzeEntry offline [] (fresh_world (sample_settings gemini [] False)) =
     (Inl (missing_key_error gemini), fresh_world (sample_settings gemini [] False)) \<and>
   generateReport offline [sample_entry] weekly
       (fresh_world (sample_settings deepseek (ascii ''sk-test'') False)) =
     (Inl (not_enabled_error deepseek),
      fresh_world (sample_settings deepseek (ascii ''sk-test'') False))"
  using preconditions_checked_first
      [where w = "fresh_world (sample_settings gemini [] False)" and H = offline
         and t = "[]"]
    preconditions_checked_first
      [where w = "fresh_world (sample_settings deepseek (ascii ''sk-test'') False)"
         and H = offline and entries = "[sample_entry]" and reportType = weekly]
  by (simp add: fresh_world_def sample_settings_def ascii_def)

text \<open>
  With the key \<open>" "\<close> (one space) and the provider enabled, \<open>analyzeEntry\<close> sends the
  request; the error it returns is the one of the transport, not the configuration error.
\<close>

theorem whitespace_key_counterexample:
  "apiKey (providers (sample_settings deepseek (ascii '' '') True)
             (activeProvider (sample_settings deepseek (ascii '' '') True))) = [0x0020] \<and>
   fst (analyzeEntry offline [] (fresh_world (sample_settings deepseek (ascii '' '') True))) =
     Inl network_down \<and>
   fst (analyzeEntry offline [] (fresh_world (sample_settings deepseek (ascii '' '') True))) \<noteq>
     Inl (missing_key_error deepseek) \<and>
   calls (snd (analyzeEntry offline []
                 (fresh_world (sample_settings deepseek (ascii '' '') True)))) =
     [Fetch (chat_request (new_DeepSeekAdapter (ascii '' '') (ascii ''deepseek-chat''))
               SYSTEM_INSTRUCTION_ANALYSIS (ANALYSIS_PROMPT @ ANALYSIS_FORMAT) True)]"
  by (simp add: analyzeEntry_def Let_def sample_settings_def fresh_world_def
      DeepSeekAdapter_analyzeEntry_def chat_offline network_down_def missing_key_error_def
      ascii_def)

section \<open>Reports\<close>

text \<open>
  C2. For every report type, \<open>generateReport\<close> with no entries returns the fixed string
  for "nothing to analyze" and leaves the world as it was, so no request is sent: in both
  adapters, and in the service for every configuration whose active provider has a key
  and is enabled.
\<close>

theorem empty_report_without_call:
  "DeepSeekAdapter_generateReport H a [] reportType w =
     (Inr (JStr [0x6CA1, 0x6709, 0x53EF, 0x5206, 0x6790, 0x7684, 0x65E5, 0x8BB0, 0x6761,
                 0x76EE, 0x3002]), w) \<and>
   GeminiAdapter_generateReport H g [] reportType w =
     (Inr (JStr [0x6CA1, 0x6709, 0x53EF, 0x5206, 0x6790, 0x7684, 0x65E5, 0x8BB0, 0x6761,
                 0x76EE, 0x3002]), w) \<and>
   (apiKey (providers (settings w) (activeProvider (settings w))) \<noteq> [] \<and>
    enabled (providers (settings w) (activeProvider (settings w))) \<longrightarrow>
      generateReport H [] reportType w =
        (Inr (JStr [0x6CA1, 0x6709, 0x53EF, 0x5206, 0x6790, 0x7684, 0x65E5, 0x8BB0, 0x6761,
                    0x76EE, 0x3002]), w))"
  by (simp add: DeepSeekAdapter_generateReport_def GeminiAdapter_generateReport_def
      generateReport_def Let_def)

theorem empty_report_without_call_witness:
  "generateReport offline [] yearly (fresh_world (sample_settings gemini (ascii ''sk-test'') True)) =
     (Inr (JStr [0x6CA1, 0x6709, 0x53EF, 0x5206, 0x6790, 0x7684, 0x65E5, 0x8BB0, 0x6761,
                 0x76EE, 0x3002]),
      fresh_world (sample_settings gemini (ascii ''sk-test'') True)) \<and>
   calls (fresh_world (sample_settings gemini (ascii ''sk-test'') True)) = []"
  using empty_report_without_call
    [where H = offline and reportType = yearly
       and w = "fresh_world (sample_settings gemini (ascii ''sk-test'') True)"]
  by (simp add: fresh_world_def sample_settings_def ascii_def)

subsection \<open>The context of a report\<close>

lemma report_prompt_Cons:
  "report_prompt reportType (e # rest) =
     info_prompt (REPORT_PROMPTS reportType) @
     [0x000A, 0x000A, 0x65E5, 0x8BB0, 0x6761, 0x76EE] @ ascii '':'' @ [0x000A] @
     entry_block e @
     concat (map (\<lambda>x. [0x000A] @ ascii ''---'' @ [0x000A] @ entry_block x) rest)"
  by (simp add: report_prompt_def entries_context_def join_Cons comp_def)

lemma report_request_body:
  "body (chat_request a SYSTEM_INSTRUCTION_REPORT prompt False) =
     JObj [(ascii ''model'', JStr (ds_model a)),
           (ascii ''messages'',
              JArr [JObj [(ascii ''role'', JStr (ascii ''system'')),
                          (ascii ''content'', JStr SYSTEM_INSTRUCTION_REPORT)],
                    JObj [(ascii ''role'', JStr (ascii ''user'')),
                          (ascii ''content'', JStr prompt)]]),
           (ascii ''stream'', JBool False)]"
  by (simp add: chat_request_def)

lemma sample_block:
  "entry_block sample_entry =
     [0x65E5, 0x671F] @ ascii '': 2024-03-05'' @
     [0x000A, 0x6807, 0x9898] @ ascii '': Walk'' @
     [0x000A, 0x5185, 0x5BB9] @ ascii '': Sunny''"
  by (simp add: entry_block_def split_first_def sample_entry_def ascii_def)

text \<open>
  C3 (amended). For every non-empty list of entries, the prompt that \<open>generateReport\<close>
  sends, in both adapters, ends with the entries serialized one block each, the blocks
  joined by the line \<open>---\<close>. A block is the label U+65E5 U+671F (date), a colon, a space
  and the part of the entry's date before the first \<open>T\<close>; a line break, the label
  U+6807 U+9898 (title), a colon, a space and the title; a line break, the label
  U+5185 U+5BB9 (content), a colon, a space and the content. The labels are Chinese,
  not \<open>Date\<close>, \<open>Title\<close> and \<open>Content\<close>.
\<close>

theorem report_context_blocks:
  "entries = e # rest \<Longrightarrow>
   report_prompt reportType entries =
     info_prompt (REPORT_PROMPTS reportType) @
     [0x000A, 0x000A, 0x65E5, 0x8BB0, 0x6761, 0x76EE] @ ascii '':'' @ [0x000A] @
     entry_block e @
     concat (map (\<lambda>x. [0x000A] @ ascii ''---'' @ [0x000A] @ entry_block x) rest) \<and>
   entry_block e =
     [0x65E5, 0x671F] @ ascii '': '' @ takeWhile (\<lambda>u. u \<noteq> 0x0054) (date e) @
     [0x000A, 0x6807, 0x9898] @ ascii '': '' @ title e @
     [0x000A, 0x5185, 0x5BB9] @ ascii '': '' @ content e \<and>
   calls (snd (DeepSeekAdapter_generateReport H a entries reportType w)) =
     calls w @
     [Fetch (chat_request a SYSTEM_INSTRUCTION_REPORT (report_prompt reportType entries) False)] \<and>
   body (chat_request a SYSTEM_INSTRUCTION_REPORT (report_prompt reportType entries) False) =
     JObj [(ascii ''model'', JStr (ds_model a)),
           (ascii ''messages'',
              JArr [JObj [(ascii ''role'', JStr (ascii ''system'')),
                          (ascii ''content'', JStr SYSTEM_INSTRUCTION_REPORT)],
                    JObj [(ascii ''role'', JStr (ascii ''user'')),
                          (ascii ''content'', JStr (report_prompt reportType entries))]]),
           (ascii ''stream'', JBool False)] \<and>
   calls (snd (GeminiAdapter_generateReport H g entries reportType w)) =
     calls w @
     [GenerateContent (ai g)
        \<lparr>params_model = gm_model g,
         contents = report_prompt reportType entries,
         config = Some \<lparr>responseMimeType = None, responseSchema = None,
                        systemInstruction = Some SYSTEM_INSTRUCTION_REPORT\<rparr>\<rparr>]"
proof -
  assume nonempty: "entries = e # rest"
  have prompt: "report_prompt reportType entries =
     info_prompt (REPORT_PROMPTS reportType) @
     [0x000A, 0x000A, 0x65E5, 0x8BB0, 0x6761, 0x76EE] @ ascii '':'' @ [0x000A] @
     entry_block e @
     concat (map (\<lambda>x. [0x000A] @ ascii ''---'' @ [0x000A] @ entry_block x) rest)"
    unfolding nonempty by (rule report_prompt_Cons)
  have block: "entry_block e =
     [0x65E5, 0x671F] @ ascii '': '' @ takeWhile (\<lambda>u. u \<noteq> 0x0054) (date e) @
     [0x000A, 0x6807, 0x9898] @ ascii '': '' @ title e @
     [0x000A, 0x5185, 0x5BB9] @ ascii '': '' @ content e"
    by (simp add: entry_block_def split_first_def)
  have deepseek: "calls (snd (DeepSeekAdapter_generateReport H a entries reportType w)) =
     calls w @
     [Fetch (chat_request a SYSTEM_INSTRUCTION_REPORT (report_prompt reportType entries) False)]"
    using nonempty by (simp add: DeepSeekAdapter_generateReport_def chat_calls)
  have gemini: "calls (snd (GeminiAdapter_generateReport H g entries reportType w)) =
     calls w @
     [GenerateContent (ai g)
        \<lparr>params_model = gm_model g,
         contents = report_prompt reportType entries,
         config = Some \<lparr>responseMimeType = None, responseSchema = None,
                        systemInstruction = Some SYSTEM_INSTRUCTION_REPORT\<rparr>\<rparr>]"
    using nonempty by (simp add: gemini_report_snd report_params_def)
  from prompt block deepseek report_request_body gemini show ?thesis
    by blast
qed

theorem report_context_blocks_witness:
  "report_prompt weekly [sample_entry, sample_entry] =
     weekly_prompt @
     [0x000A, 0x000A, 0x65E5, 0x8BB0, 0x6761, 0x76EE] @ ascii '':'' @ [0x000A] @
     entry_block sample_entry @ [0x000A] @ ascii ''---'' @ [0x000A] @ entry_block sample_entry \<and>
   entry_block sample_entry =
     [0x65E5, 0x671F] @ ascii '': 2024-03-05'' @
     [0x000A, 0x6807, 0x9898] @ ascii '': Walk'' @
     [0x000A, 0x5185, 0x5BB9] @ ascii '': Sunny''"
  using report_context_blocks
    [where entries = "[sample_entry, sample_entry]" and e = sample_entry
       and rest = "[sample_entry]" and reportType = weekly]
  by (simp add: sample_entry_def ascii_def)

text \<open>
  For one entry dated \<open>2024-03-05T08:30:00.000Z\<close> with the title \<open>Walk\<close> and the
  content \<open>Sunny\<close>, the request of the DeepSeek adapter carries the block with the
  Chinese labels, which is not the block \<open>Date: 2024-03-05\<close>, \<open>Title: Walk\<close>,
  \<open>Content: Sunny\<close>.
\<close>

theorem english_labels_counterexample:
  "calls (snd (DeepSeekAdapter_generateReport offline
       (new_DeepSeekAdapter (ascii ''sk-test'') (ascii ''deepseek-chat'')) [sample_entry] weekly
       (fresh_world (sample_settings deepseek (ascii ''sk-test'') True)))) =
     [Fetch (chat_request (new_DeepSeekAdapter (ascii ''sk-test'') (ascii ''deepseek-chat''))
        SYSTEM_INSTRUCTION_REPORT
        (weekly_prompt @
         [0x000A, 0x000A, 0x65E5, 0x8BB0, 0x6761, 0x76EE] @ ascii '':'' @ [0x000A] @
         [0x65E5, 0x671F] @ ascii '': 2024-03-05'' @
         [0x000A, 0x6807, 0x9898] @ ascii '': Walk'' @
         [0x000A, 0x5185, 0x5BB9] @ ascii '': Sunny'') False)] \<and>
   spec_entry_block sample_entry =
     ascii ''Date: 2024-03-05'' @ [0x000A] @ ascii ''Title: Walk'' @ [0x000A] @
     ascii ''Content: Sunny'' \<and>
   entry_block sample_entry \<noteq> spec_entry_block sample_entry \<and>
   entries_context [sample_entry] \<noteq> spec_entry_block sample_entry"
proof -
  have a: "spec_entry_block sample_entry =
     ascii ''Date: 2024-03-05'' @ [0x000A] @ ascii ''Title: Walk'' @ [0x000A] @
     ascii ''Content: Sunny''"
    by (simp add: spec_entry_block_def split_first_def sample_entry_def ascii_def)
  have b: "entry_block sample_entry \<noteq> spec_entry_block sample_entry"
    unfolding a sample_block by (simp add: ascii_def)
  have c: "entries_context [sample_entry] = entry_block sample_entry"
    by (simp add: entries_context_def)
  have d: "report_prompt weekly [sample_entry] = weekly_prompt @
         [0x000A, 0x000A, 0x65E5, 0x8BB0, 0x6761, 0x76EE] @ ascii '':'' @ [0x000A] @
         [0x65E5, 0x671F] @ ascii '': 2024-03-05'' @
         [0x000A, 0x6807, 0x9898] @ ascii '': Walk'' @
         [0x000A, 0x5185, 0x5BB9] @ ascii '': Sunny''"
    by (simp add: report_prompt_def c sample_block)
  have e: "calls (snd (DeepSeekAdapter_generateReport offline
       (new_DeepSeekAdapter (ascii ''sk-test'') (ascii ''deepseek-chat'')) [sample_entry] weekly
       (fresh_world (sample_settings deepseek (ascii ''sk-test'') True)))) =
     [Fetch (chat_request (new_DeepSeekAdapter (ascii ''sk-test'') (ascii ''deepseek-chat''))
        SYSTEM_INSTRUCTION_REPORT (report_prompt weekly [sample_entry]) False)]"
    by (simp add: DeepSeekAdapter_generateReport_def chat_calls fresh_world_def)
  show ?thesis using a b c e unfolding d by simp
qed

text \<open>
  When the response to a report request over a non-empty list of entries has a list of
  choices but no content, neither adapter fails: the Gemini adapter returns the
  placeholder U+65E0 U+6CD5 U+751F U+6210 U+62A5 U+544A U+3002 when the text of the
  response is \<open>undefined\<close> or empty, and the DeepSeek adapter returns the empty string
  that \<open>chat\<close> gives when the first completion (if there is one) has no message content.
\<close>

theorem report_without_content:
  "entries \<noteq> [] \<Longrightarrow>
   (generateContent H (ai g) (report_params g reportType entries) = Inr response \<and>
    (response_text response = None \<or> response_text response = Some [])
    \<longrightarrow> fst (GeminiAdapter_generateReport H g entries reportType w) =
          Inr (JStr [0x65E0, 0x6CD5, 0x751F, 0x6210, 0x62A5, 0x544A, 0x3002])) \<and>
   (fetch H (chat_request a SYSTEM_INSTRUCTION_REPORT (report_prompt reportType entries) False) =
      Inr r \<and> ok r \<and> json r = Inr data \<and>
    get_prop data (ascii ''choices'') = Inr (JArr choices) \<and>
    \<not> truthy (optional_prop
                (optional_prop (case choices of [] \<Rightarrow> Undefined | c # cs \<Rightarrow> c) (ascii ''message''))
                (ascii ''content''))
    \<longrightarrow> fst (DeepSeekAdapter_generateReport H a entries reportType w) = Inr (JStr []))"
proof -
  assume nonempty: "entries \<noteq> []"
  have gemini: "fst (GeminiAdapter_generateReport H g entries reportType w) =
          Inr (JStr [0x65E0, 0x6CD5, 0x751F, 0x6210, 0x62A5, 0x544A, 0x3002])"
    if "generateContent H (ai g) (report_params g reportType entries) = Inr response"
      and "response_text response = None \<or> response_text response = Some []"
    using nonempty that by (auto simp add: GeminiAdapter_generateReport_def Let_def)
  have deepseek: "fst (DeepSeekAdapter_generateReport H a entries reportType w) = Inr (JStr [])"
    if "fetch H (chat_request a SYSTEM_INSTRUCTION_REPORT (report_prompt reportType entries) False) =
          Inr r" and "ok r" and "json r = Inr data"
      and "get_prop data (ascii ''choices'') = Inr (JArr choices)"
      and "\<not> truthy (optional_prop
                (optional_prop (case choices of [] \<Rightarrow> Undefined | c # cs \<Rightarrow> c) (ascii ''message''))
                (ascii ''content''))"
  proof -
    have "index0 (JArr choices) = Inr (case choices of [] \<Rightarrow> Undefined | c # cs \<Rightarrow> c)"
      by simp
    from chat_ok_result [OF that(1-4) this, of w] that(5) nonempty show ?thesis
      by (simp add: DeepSeekAdapter_generateReport_def or_else_def)
  qed
  from gemini deepseek show ?thesis by blast
qed

theorem report_without_content_example:
  "[sample_entry] \<noteq> [] \<and>
   fst (GeminiAdapter_generateReport
          (stub_host
             (Inr \<lparr>status = 200,
                   json = Inr (JObj [(ascii ''choices'',
                                      JArr [JObj [(ascii ''message'', JObj [])]])])\<rparr>)
             (Inr \<lparr>response_text = None\<rparr>) (Inl network_down))
          (new_GeminiAdapter (ascii ''sk-test'') (ascii ''gemini-2.0-flash'')) [sample_entry] monthly
          (fresh_world (sample_settings gemini (ascii ''sk-test'') True))) =
     Inr (JStr [0x65E0, 0x6CD5, 0x751F, 0x6210, 0x62A5, 0x544A, 0x3002]) \<and>
   fst (DeepSeekAdapter_generateReport
          (stub_host
             (Inr \<lparr>status = 200,
                   json = Inr (JObj [(ascii ''choices'',
                                      JArr [JObj [(ascii ''message'', JObj [])]])])\<rparr>)
             (Inr \<lparr>response_text = None\<rparr>) (Inl network_down))
          (new_DeepSeekAdapter (ascii ''sk-test'') (ascii ''deepseek-chat'')) [sample_entry] monthly
          (fresh_world (sample_settings gemini (ascii ''sk-test'') True))) = Inr (JStr [])"
  using report_without_content
    [of "[sample_entry]"
        "stub_host
             (Inr \<lparr>status = 200,
                   json = Inr (JObj [(ascii ''choices'',
                                      JArr [JObj [(ascii ''message'', JObj [])]])])\<rparr>)
             (Inr \<lparr>response_text = None\<rparr>) (Inl network_down)"
        "new_GeminiAdapter (ascii ''sk-test'') (ascii ''gemini-2.0-flash'')" monthly
        "\<lparr>response_text = None\<rparr>"
        "fresh_world (sample_settings gemini (ascii ''sk-test'') True)"
        "new_DeepSeekAdapter (ascii ''sk-test'') (ascii ''deepseek-chat'')"
        "\<lparr>status = 200,
          json = Inr (JObj [(ascii ''choices'', JArr [JObj [(ascii ''message'', JObj [])]])])\<rparr>"
        "JObj [(ascii ''choices'', JArr [JObj [(ascii ''message'', JObj [])]])]"
        "[JObj [(ascii ''message'', JObj [])]]"]
  by (simp add: stub_host_def ok_def)

text \<open>
  C6. The claim is that a response without content to a report request is not an error
  in either adapter, the DeepSeek adapter returning the empty string. A response with
  status 200 and the body \<open>{}\<close> carries no content, and there \<open>data.choices\<close> is
  \<open>undefined\<close>: \<open>data.choices[0]\<close> throws the engine's TypeError before \<open>?.\<close> and
  \<open>|| ''\<close> are reached, and \<open>generateReport\<close> fails with it.
\<close>

theorem missing_choices_is_type_error:
  "fst (generateReport
          (stub_host (Inr \<lparr>status = 200, json = Inr (JObj [])\<rparr>) (Inl network_down)
             (Inl network_down))
          [sample_entry] weekly
          (fresh_world (sample_settings deepseek (ascii ''sk-test'') True))) =
     Inl (TypeError (ascii ''0'')) \<and>
   fst (DeepSeekAdapter_generateReport
          (stub_host (Inr \<lparr>status = 200, json = Inr (JObj [])\<rparr>) (Inl network_down)
             (Inl network_down))
          (new_DeepSeekAdapter (ascii ''sk-test'') (ascii ''deepseek-chat''))
          [sample_entry] weekly
          (fresh_world (sample_settings deepseek (ascii ''sk-test'') True))) =
     Inl (TypeError (ascii ''0''))"
  by (simp add: generateReport_def Let_def fresh_world_def sample_settings_def
      DeepSeekAdapter_generateReport_def DeepSeekAdapter_chat_def stub_host_def ok_def
      ascii_def)

section \<open>Errors of the chat primitive\<close>

text \<open>
  On a status that is not \<open>ok\<close>, with a body that is not the JSON value \<open>null\<close>, the error
  of \<open>chat\<close> has the text \<open>DeepSeek API Error: <status> - <message>\<close>, where the message
  is \<open>error.message\<close> of the body when that is truthy and \<open>Unknown error\<close> otherwise.
\<close>

lemma chat_error_text:
  assumes "fetch H (chat_request a s u j) = Inr r" and "\<not> ok r"
    and "json r \<noteq> Inr JNull" and "json r \<noteq> Inr Undefined"
  shows "fst (DeepSeekAdapter_chat H a s u j w) =
     Inl (Error (ascii ''DeepSeek API Error: '' @ Number_toString (status r) @ ascii '' - '' @
                 to_string H
                   (or_else
                      (optional_prop
                         (optional_prop (case json r of Inl e \<Rightarrow> JObj [] | Inr v \<Rightarrow> v)
                            (ascii ''error''))
                         (ascii ''message''))
                      (JStr (ascii ''Unknown error'')))))"
proof -
  let ?b = "case json r of Inl e \<Rightarrow> JObj [] | Inr v \<Rightarrow> v"
  have "?b \<noteq> JNull" "?b \<noteq> Undefined"
    using assms(3,4) by (auto split: sum.splits)
  then have "get_prop ?b (ascii ''error'') = Inr (optional_prop ?b (ascii ''error''))"
    by (rule get_prop_not_null)
  then show ?thesis
    using assms(1,2) by (simp add: DeepSeekAdapter_chat_def Let_def)
qed

lemma chat_error_contains:
  assumes "fetch H (chat_request a s u j) = Inr r" and "\<not> ok r"
    and "json r = Inr (JObj props)"
    and "map_of props (ascii ''error'') = Some (JObj detail)"
    and "map_of detail (ascii ''message'') = Some (JStr m)" and "m \<noteq> []"
  shows "\<exists>text. fst (DeepSeekAdapter_chat H a s u j w) = Inl (Error text) \<and>
           sublist (Number_toString (status r)) text \<and> sublist m text"
proof -
  have "fst (DeepSeekAdapter_chat H a s u j w) =
      Inl (Error (ascii ''DeepSeek API Error: '' @ Number_toString (status r) @
                  ascii '' - '' @ m))"
    using assms chat_error_text [of H a s u j r w]
    by (simp add: or_else_def to_string_def)
  moreover have "sublist (Number_toString (status r))
      (ascii ''DeepSeek API Error: '' @ Number_toString (status r) @ ascii '' - '' @ m)"
    by (rule sublist_appendI)
  moreover have "sublist m
      ((ascii ''DeepSeek API Error: '' @ Number_toString (status r) @ ascii '' - '') @ m @ [])"
    by (rule sublist_appendI)
  ultimately show ?thesis by simp
qed

text \<open>
  The scenario of the specification: status 500 with the body
  \<open>{"error":{"message":"server overloaded"}}\<close>.
\<close>

lemma server_overloaded_scenario:
  "fst (analyzeEntry
          (stub_host
             (Inr \<lparr>status = 500,
                   json = Inr (JObj [(ascii ''error'',
                                      JObj [(ascii ''message'',
                                             JStr (ascii ''server overloaded''))])])\<rparr>)
             (Inl network_down) (Inl network_down))
          (ascii ''I had a great day'')
          (fresh_world (sample_settings deepseek (ascii ''sk-test'') True))) =
     Inl (Error (ascii ''DeepSeek API Error: 500 - server overloaded''))"
  by (simp add: analyzeEntry_def Let_def fresh_world_def sample_settings_def
      DeepSeekAdapter_analyzeEntry_def DeepSeekAdapter_chat_def stub_host_def ok_def
      or_else_def to_string_def log_and_rethrow_def Number_toString_500)
    (simp add: ascii_def)

text \<open>
  C5. The claim is that on every response that is not \<open>ok\<close> the error of \<open>chat\<close> names
  the status and the vendor's message or \<open>Unknown error\<close>. On status 500 with the body
  \<open>null\<close> (valid JSON), \<open>response.json()\<close> succeeds with \<open>null\<close>, the \<open>catch\<close> that
  supplies \<open>{}\<close> does not run, and \<open>error.error\<close> throws the engine's TypeError: the
  error of \<open>analyzeEntry\<close> is that TypeError and carries no status.
\<close>

theorem null_error_body_is_type_error:
  "fst (analyzeEntry
          (stub_host (Inr \<lparr>status = 500, json = Inr JNull\<rparr>) (Inl network_down)
             (Inl network_down))
          (ascii ''I had a great day'')
          (fresh_world (sample_settings deepseek (ascii ''sk-test'') True))) =
     Inl (TypeError (ascii ''error''))"
  by (simp add: analyzeEntry_def Let_def fresh_world_def sample_settings_def
      DeepSeekAdapter_analyzeEntry_def DeepSeekAdapter_chat_def stub_host_def ok_def
      log_and_rethrow_def ascii_def)

section \<open>The key probe\<close>

text \<open>
  C4. For both providers and every key, \<open>validateApiKey\<close> never throws: its result is
  always a boolean, \<open>true\<close> exactly when the probe (the \<open>chat\<close> call for DeepSeek, the
  \<open>generateContent\<close> call for Gemini) completes without throwing and \<open>false\<close>
  otherwise; in particular it is \<open>false\<close> when \<open>fetch\<close> is rejected, when the status is
  not \<open>ok\<close>, and when the body of an \<open>ok\<close> response cannot be read.
\<close>

theorem validateApiKey_never_throws:
  "(\<exists>b. fst (validateApiKey H provider key w) = Inr b) \<and>
   fst (validateApiKey H deepseek key w) =
     Inr (case fst (DeepSeekAdapter_chat H (new_DeepSeekAdapter key (ascii ''deepseek-chat''))
                      (ascii ''You are a test assistant.'')
                      (ascii ''Say '' @ [0x0022] @ ascii ''OK'' @ [0x0022] @
                       ascii '' if you can hear me.'') False w) of
            Inl e \<Rightarrow> False | Inr v \<Rightarrow> True) \<and>
   fst (validateApiKey H gemini key w) =
     Inr (case generateContent H \<lparr>client_apiKey = key\<rparr>
                 \<lparr>params_model = ascii ''gemini-2.0-flash'',
                  contents = ascii ''Say '' @ [0x0022] @ ascii ''OK'' @ [0x0022],
                  config = None\<rparr> of
            Inl e \<Rightarrow> False | Inr response \<Rightarrow> True) \<and>
   ((\<exists>e. fetch H (chat_request (new_DeepSeekAdapter key (ascii ''deepseek-chat''))
                (ascii ''You are a test assistant.'')
                (ascii ''Say '' @ [0x0022] @ ascii ''OK'' @ [0x0022] @
                 ascii '' if you can hear me.'') False) = Inl e) \<or>
    (\<exists>r. fetch H (chat_request (new_DeepSeekAdapter key (ascii ''deepseek-chat''))
                (ascii ''You are a test assistant.'')
                (ascii ''Say '' @ [0x0022] @ ascii ''OK'' @ [0x0022] @
                 ascii '' if you can hear me.'') False) = Inr r \<and>
         (\<not> ok r \<or> (\<exists>e. json r = Inl e)))
    \<longrightarrow> fst (validateApiKey H deepseek key w) = Inr False)"
proof -
  let ?a = "new_DeepSeekAdapter key (ascii ''deepseek-chat'')"
  let ?s = "ascii ''You are a test assistant.''"
  let ?u = "ascii ''Say '' @ [0x0022] @ ascii ''OK'' @ [0x0022] @ ascii '' if you can hear me.''"
  have deepseek: "fst (validateApiKey H deepseek key w) =
     Inr (case fst (DeepSeekAdapter_chat H ?a ?s ?u False w) of Inl e \<Rightarrow> False | Inr v \<Rightarrow> True)"
    by (simp add: validateApiKey_def split: sum.splits prod.splits)
  have gemini: "fst (validateApiKey H gemini key w) =
     Inr (case generateContent H \<lparr>client_apiKey = key\<rparr>
                 \<lparr>params_model = ascii ''gemini-2.0-flash'',
                  contents = ascii ''Say '' @ [0x0022] @ ascii ''OK'' @ [0x0022],
                  config = None\<rparr> of
            Inl e \<Rightarrow> False | Inr response \<Rightarrow> True)"
    by (simp add: validateApiKey_def Let_def probe_params_def split: sum.splits)
  have total: "\<exists>b. fst (validateApiKey H provider key w) = Inr b"
    by (cases provider) (simp_all add: deepseek gemini)
  have failures: "fst (validateApiKey H deepseek key w) = Inr False"
    if "(\<exists>e. fetch H (chat_request ?a ?s ?u False) = Inl e) \<or>
        (\<exists>r. fetch H (chat_request ?a ?s ?u False) = Inr r \<and> (\<not> ok r \<or> (\<exists>e. json r = Inl e)))"
  proof -
    have "\<exists>e. fst (DeepSeekAdapter_chat H ?a ?s ?u False w) = Inl e"
      using that chat_rejected [of H ?a ?s ?u False] chat_not_ok_is_error [of H ?a ?s ?u False]
        chat_unreadable_body [of H ?a ?s ?u False]
      by (metis (no_types, lifting))
    then show ?thesis unfolding deepseek by auto
  qed
  from total deepseek gemini failures show ?thesis by blast
qed

theorem validateApiKey_never_throws_witness:
  "fst (validateApiKey
          (stub_host (Inr \<lparr>status = 401, json = Inl network_down\<rparr>) (Inl network_down)
             (Inl network_down))
          deepseek (ascii ''sk-bad'') (fresh_world (sample_settings deepseek [] True))) = Inr False \<and>
   fst (validateApiKey offline gemini (ascii ''sk-bad'')
          (fresh_world (sample_settings deepseek [] True))) = Inr False \<and>
   fst (validateApiKey
          (stub_host (Inl network_down) (Inr \<lparr>response_text = Some (ascii ''OK'')\<rparr>)
             (Inl network_down))
          gemini (ascii ''sk-good'') (fresh_world (sample_settings deepseek [] True))) = Inr True"
proof -
  let ?w = "fresh_world (sample_settings deepseek [] True)"
  let ?H = "stub_host (Inr \<lparr>status = 401, json = Inl network_down\<rparr>) (Inl network_down)
              (Inl network_down)"
  let ?G = "stub_host (Inl network_down) (Inr \<lparr>response_text = Some (ascii ''OK'')\<rparr>)
              (Inl network_down)"
  have "fetch ?H request = Inr \<lparr>status = 401, json = Inl network_down\<rparr>" for request
    by (simp add: stub_host_def)
  moreover have "\<not> ok \<lparr>status = 401, json = Inl network_down\<rparr>"
    by (simp add: ok_def)
  ultimately have unauthorized: "fst (validateApiKey ?H deepseek (ascii ''sk-bad'') ?w) = Inr False"
    using validateApiKey_never_throws [of ?H deepseek "ascii ''sk-bad''" ?w] by blast
  have down: "fst (validateApiKey offline gemini (ascii ''sk-bad'') ?w) = Inr False"
    using validateApiKey_never_throws [of offline gemini "ascii ''sk-bad''" ?w]
    by (simp add: offline_def stub_host_def)
  have good: "fst (validateApiKey ?G gemini (ascii ''sk-good'') ?w) = Inr True"
    using validateApiKey_never_throws [of ?G gemini "ascii ''sk-good''" ?w]
    by (simp add: stub_host_def)
  from unauthorized down good show ?thesis by blast
qed

section \<open>The model list\<close>

text \<open>
  C8. \<open>getModels\<close> is a pure lookup: for \<open>deepseek\<close> it is the list \<open>deepseek-chat\<close>,
  \<open>deepseek-reasoner\<close>, and for \<open>gemini\<close> the list \<open>gemini-2.0-flash\<close>,
  \<open>gemini-2.0-flash-lite\<close>, \<open>gemini-1.5-pro\<close>, in these orders.
\<close>

theorem getModels_exact:
  "getModels deepseek = [ascii ''deepseek-chat'', ascii ''deepseek-reasoner''] \<and>
   getModels gemini =
     [ascii ''gemini-2.0-flash'', ascii ''gemini-2.0-flash-lite'', ascii ''gemini-1.5-pro'']"
  by (simp add: getModels_def)

section \<open>The service keeps no state\<close>

text \<open>
  Each operation returns a result and appends requests (and console lines) that are the
  same from whatever world it starts.
\<close>

lemma pure_effectI:
  assumes "\<And>w v. fst (F w) = fst (F v)" and "\<And>w. snd (F w) = w\<lparr>calls := calls w @ cs\<rparr>"
  shows "\<exists>r. \<forall>w. F w = (r, w\<lparr>calls := calls w @ cs\<rparr>)"
proof -
  have "F w = (fst (F undefined), w\<lparr>calls := calls w @ cs\<rparr>)" for w
    using assms(1) [of w undefined] assms(2) [of w] by (metis prod.collapse)
  then show ?thesis by blast
qed

lemma chat_effect:
  "\<exists>r. \<forall>w. DeepSeekAdapter_chat H a s u j w =
     (r, w\<lparr>calls := calls w @ [Fetch (chat_request a s u j)]\<rparr>)"
  by (rule pure_effectI) (rule chat_fst, rule chat_snd)

lemma deepseek_analyzeEntry_effect:
  "\<exists>r cs. \<forall>w. DeepSeekAdapter_analyzeEntry H a t w = (r, w\<lparr>calls := calls w @ cs\<rparr>)"
proof -
  obtain r where r: "\<forall>w. DeepSeekAdapter_chat H a SYSTEM_INSTRUCTION_ANALYSIS
      (ANALYSIS_PROMPT @ t @ ANALYSIS_FORMAT) True w =
     (r, w\<lparr>calls := calls w @ [Fetch (chat_request a SYSTEM_INSTRUCTION_ANALYSIS
                      (ANALYSIS_PROMPT @ t @ ANALYSIS_FORMAT) True)]\<rparr>)"
    using chat_effect by blast
  show ?thesis
  proof (cases r)
    case (Inl e)
    with r show ?thesis
      by (intro exI [of _ "Inl e"] exI [of _ "[Fetch (chat_request a SYSTEM_INSTRUCTION_ANALYSIS
                      (ANALYSIS_PROMPT @ t @ ANALYSIS_FORMAT) True)]"])
        (simp add: DeepSeekAdapter_analyzeEntry_def Let_def)
  next
    case (Inr v)
    with r show ?thesis
      by (intro exI [of _ "JSON_parse H (to_string H v)"]
          exI [of _ "[Fetch (chat_request a SYSTEM_INSTRUCTION_ANALYSIS
                      (ANALYSIS_PROMPT @ t @ ANALYSIS_FORMAT) True)]"])
        (simp add: DeepSeekAdapter_analyzeEntry_def Let_def)
  qed
qed

lemma no_entries_effect:
  "\<exists>r cs. \<forall>w. (x, w) = (r, w\<lparr>calls := calls w @ cs\<rparr>)"
  by (intro exI [of _ x] exI [of _ "[]"]) simp

lemma deepseek_generateReport_effect:
  "\<exists>r cs. \<forall>w. DeepSeekAdapter_generateReport H a es rt w = (r, w\<lparr>calls := calls w @ cs\<rparr>)"
proof (cases "es = []")
  case True
  then show ?thesis
    using no_entries_effect by (simp add: DeepSeekAdapter_generateReport_def)
next
  case False
  then show ?thesis
    using chat_effect [of H a SYSTEM_INSTRUCTION_REPORT "report_prompt rt es" False]
    by (simp add: DeepSeekAdapter_generateReport_def) blast
qed

lemma gemini_analyzeEntry_effect:
  "\<exists>r cs. \<forall>w. GeminiAdapter_analyzeEntry H g t w = (r, w\<lparr>calls := calls w @ cs\<rparr>)"
proof -
  have "\<exists>r. \<forall>w. GeminiAdapter_analyzeEntry H g t w =
     (r, w\<lparr>calls := calls w @ [GenerateContent (ai g) (analysis_params g t)]\<rparr>)"
    by (rule pure_effectI)
      (simp_all add: GeminiAdapter_analyzeEntry_def Let_def split: sum.splits option.splits)
  then show ?thesis by blast
qed

lemma gemini_generateReport_effect:
  "\<exists>r cs. \<forall>w. GeminiAdapter_generateReport H g es rt w = (r, w\<lparr>calls := calls w @ cs\<rparr>)"
proof (cases "es = []")
  case True
  then show ?thesis
    using no_entries_effect by (simp add: GeminiAdapter_generateReport_def)
next
  case False
  then have "\<exists>r. \<forall>w. GeminiAdapter_generateReport H g es rt w =
      (r, w\<lparr>calls := calls w @ [GenerateContent (ai g) (report_params g rt es)]\<rparr>)"
    by (intro pure_effectI)
      (simp_all add: GeminiAdapter_generateReport_def Let_def split: sum.splits)
  then show ?thesis by blast
qed

lemma log_and_rethrow_effect:
  assumes "\<forall>w. F w = (r, w\<lparr>calls := calls w @ cs\<rparr>)"
  shows "\<exists>ls. \<forall>w. log_and_rethrow l (F w) =
           (r, w\<lparr>calls := calls w @ cs, console := console w @ ls\<rparr>)"
proof (cases r)
  case (Inl e)
  with assms have "\<forall>w. log_and_rethrow l (F w) =
      (r, w\<lparr>calls := calls w @ cs, console := console w @ [(l, e)]\<rparr>)"
    by simp
  then show ?thesis by blast
next
  case (Inr v)
  with assms have "\<forall>w. log_and_rethrow l (F w) =
      (r, w\<lparr>calls := calls w @ cs, console := console w @ []\<rparr>)"
    by simp
  then show ?thesis by blast
qed

lemma guarded_effect:
  assumes "\<exists>r cs. \<forall>w. F w = (r, w\<lparr>calls := calls w @ cs\<rparr>)"
  shows "\<exists>r cs ls. \<forall>w. settings w = s \<longrightarrow>
     (if apiKey (providers s (activeProvider s)) = []
      then (Inl (missing_key_error (activeProvider s)), w)
      else if \<not> enabled (providers s (activeProvider s))
      then (Inl (not_enabled_error (activeProvider s)), w)
      else log_and_rethrow l (F w)) =
     (r, w\<lparr>calls := calls w @ cs, console := console w @ ls\<rparr>)"
proof -
  let ?p = "activeProvider s"
  let ?c = "providers s ?p"
  consider (nokey) "apiKey ?c = []" | (disabled) "apiKey ?c \<noteq> []" "\<not> enabled ?c"
    | (ready) "apiKey ?c \<noteq> []" "enabled ?c"
    by blast
  then show ?thesis
  proof cases
    case nokey
    then show ?thesis
      by (intro exI [of _ "Inl (missing_key_error ?p)"] exI [of _ "[]"]) simp
  next
    case disabled
    then show ?thesis
      by (intro exI [of _ "Inl (not_enabled_error ?p)"] exI [of _ "[]"]) simp
  next
    case ready
    from assms obtain r cs where F: "\<forall>w. F w = (r, w\<lparr>calls := calls w @ cs\<rparr>)"
      by blast
    obtain ls where "\<forall>w. log_and_rethrow l (F w) =
        (r, w\<lparr>calls := calls w @ cs, console := console w @ ls\<rparr>)"
      using log_and_rethrow_effect [OF F] by blast
    with ready show ?thesis
      by (intro exI [of _ r] exI [of _ cs] exI [of _ ls]) simp
  qed
qed

lemma analyzeEntry_effect:
  "\<exists>r cs ls. \<forall>w. settings w = s \<longrightarrow>
     analyzeEntry H t w = (r, w\<lparr>calls := calls w @ cs, console := console w @ ls\<rparr>)"
proof -
  let ?c = "providers s (activeProvider s)"
  let ?F = "\<lambda>w. if activeProvider s = deepseek
                then DeepSeekAdapter_analyzeEntry H (new_DeepSeekAdapter (apiKey ?c) (model ?c)) t w
                else GeminiAdapter_analyzeEntry H (new_GeminiAdapter (apiKey ?c) (model ?c)) t w"
  have "\<exists>r cs. \<forall>w. ?F w = (r, w\<lparr>calls := calls w @ cs\<rparr>)"
    by (cases "activeProvider s = deepseek")
      (simp_all add: deepseek_analyzeEntry_effect gemini_analyzeEntry_effect)
  from guarded_effect [OF this, of s
      "ascii ''AI Analysis Failed ('' @ provider_name (activeProvider s) @ ascii ''):''"]
  show ?thesis
    by (simp add: analyzeEntry_def Let_def cong: if_cong)
qed

lemma generateReport_effect:
  "\<exists>r cs ls. \<forall>w. settings w = s \<longrightarrow>
     generateReport H es rt w = (r, w\<lparr>calls := calls w @ cs, console := console w @ ls\<rparr>)"
proof -
  let ?c = "providers s (activeProvider s)"
  let ?F = "\<lambda>w. if activeProvider s = deepseek
                then DeepSeekAdapter_generateReport H
                       (new_DeepSeekAdapter (apiKey ?c) (model ?c)) es rt w
                else GeminiAdapter_generateReport H
                       (new_GeminiAdapter (apiKey ?c) (model ?c)) es rt w"
  have "\<exists>r cs. \<forall>w. ?F w = (r, w\<lparr>calls := calls w @ cs\<rparr>)"
    by (cases "activeProvider s = deepseek")
      (simp_all add: deepseek_generateReport_effect gemini_generateReport_effect)
  from guarded_effect [OF this, of s
      "ascii ''Report Generation Failed ('' @ provider_name (activeProvider s) @ ascii ''):''"]
  show ?thesis
    by (simp add: generateReport_def Let_def cong: if_cong)
qed

lemma validateApiKey_effect:
  "\<exists>r cs. \<forall>w. validateApiKey H p k w = (r, w\<lparr>calls := calls w @ cs\<rparr>)"
proof (cases p)
  case deepseek
  obtain r where r: "\<forall>w. DeepSeekAdapter_chat H (new_DeepSeekAdapter k (ascii ''deepseek-chat''))
                (ascii ''You are a test assistant.'')
                (ascii ''Say '' @ [0x0022] @ ascii ''OK'' @ [0x0022] @ ascii '' if you can hear me.'')
                False w = (r, w\<lparr>calls := calls w @ [Fetch (chat_request
                   (new_DeepSeekAdapter k (ascii ''deepseek-chat''))
                (ascii ''You are a test assistant.'')
                (ascii ''Say '' @ [0x0022] @ ascii ''OK'' @ [0x0022] @ ascii '' if you can hear me.'')
                False)]\<rparr>)"
    using chat_effect by blast
  show ?thesis
  proof (cases r)
    case (Inl e)
    with r deepseek show ?thesis
      by (intro exI [of _ "Inr False"] exI [of _ "[Fetch (chat_request
                   (new_DeepSeekAdapter k (ascii ''deepseek-chat''))
                (ascii ''You are a test assistant.'')
                (ascii ''Say '' @ [0x0022] @ ascii ''OK'' @ [0x0022] @ ascii '' if you can hear me.'')
                False)]"]) (simp add: validateApiKey_def)
  next
    case (Inr v)
    with r deepseek show ?thesis
      by (intro exI [of _ "Inr True"] exI [of _ "[Fetch (chat_request
                   (new_DeepSeekAdapter k (ascii ''deepseek-chat''))
                (ascii ''You are a test assistant.'')
                (ascii ''Say '' @ [0x0022] @ ascii ''OK'' @ [0x0022] @ ascii '' if you can hear me.'')
                False)]"]) (simp add: validateApiKey_def)
  qed
next
  case gemini
  have "\<exists>r. \<forall>w. validateApiKey H gemini k w =
      (r, w\<lparr>calls := calls w @ [GenerateContent \<lparr>client_apiKey = k\<rparr> probe_params]\<rparr>)"
    by (intro pure_effectI) (simp_all add: validateApiKey_def Let_def split: sum.splits)
  with gemini show ?thesis by blast
qed

text \<open>
  C9. Every operation of the service leaves the settings object unchanged, and keeps no
  state between calls: the result of \<open>analyzeEntry\<close> and of \<open>generateReport\<close>, the
  requests they send and the lines they log are the same in every world that holds the
  same settings, whatever was sent or logged before, and those of \<open>validateApiKey\<close> are
  the same in every world.
\<close>

theorem service_keeps_no_state:
  "settings (snd (analyzeEntry H t w)) = settings w \<and>
   settings (snd (generateReport H es rt w)) = settings w \<and>
   settings (snd (validateApiKey H p k w)) = settings w \<and>
   (\<exists>r cs ls. \<forall>v. settings v = settings w \<longrightarrow>
      analyzeEntry H t v = (r, v\<lparr>calls := calls v @ cs, console := console v @ ls\<rparr>)) \<and>
   (\<exists>r cs ls. \<forall>v. settings v = settings w \<longrightarrow>
      generateReport H es rt v = (r, v\<lparr>calls := calls v @ cs, console := console v @ ls\<rparr>)) \<and>
   (\<exists>r cs. \<forall>v. validateApiKey H p k v = (r, v\<lparr>calls := calls v @ cs\<rparr>))"
proof -
  obtain r1 cs1 ls1 where a: "\<forall>v. settings v = settings w \<longrightarrow>
      analyzeEntry H t v = (r1, v\<lparr>calls := calls v @ cs1, console := console v @ ls1\<rparr>)"
    using analyzeEntry_effect [of "settings w" H t] by blast
  obtain r2 cs2 ls2 where b: "\<forall>v. settings v = settings w \<longrightarrow>
      generateReport H es rt v = (r2, v\<lparr>calls := calls v @ cs2, console := console v @ ls2\<rparr>)"
    using generateReport_effect [of "settings w" H es rt] by blast
  obtain r3 cs3 where c: "\<forall>v. validateApiKey H p k v = (r3, v\<lparr>calls := calls v @ cs3\<rparr>)"
    using validateApiKey_effect [of H p k] by blast
  have "settings (snd (analyzeEntry H t w)) = settings w"
    using a by simp
  moreover have "settings (snd (generateReport H es rt w)) = settings w"
    using b by simp
  moreover have "settings (snd (validateApiKey H p k w)) = settings w"
    using c by simp
  ultimately show ?thesis
    using a b c by blast
qed

theorem service_keeps_no_state_witness:
  "settings (snd (analyzeEntry offline [] (fresh_world (sample_settings deepseek (ascii ''sk-test'') True)))) =
     sample_settings deepseek (ascii ''sk-test'') True \<and>
   fst (analyzeEntry offline []
          ((fresh_world (sample_settings deepseek (ascii ''sk-test'') True))
             \<lparr>calls := [GenerateContent \<lparr>client_apiKey = []\<rparr> probe_params]\<rparr>)) =
   fst (analyzeEntry offline [] (fresh_world (sample_settings deepseek (ascii ''sk-test'') True)))"
proof -
  let ?w = "fresh_world (sample_settings deepseek (ascii ''sk-test'') True)"
  let ?v = "?w\<lparr>calls := [GenerateContent \<lparr>client_apiKey = []\<rparr> probe_params]\<rparr>"
  note fact = service_keeps_no_state [of offline "[]" ?w "[]" weekly deepseek "[]"]
  from fact obtain r cs ls where same: "\<forall>v. settings v = settings ?w \<longrightarrow>
      analyzeEntry offline [] v = (r, v\<lparr>calls := calls v @ cs, console := console v @ ls\<rparr>)"
    by blast
  have "settings ?v = settings ?w"
    by simp
  with same have "fst (analyzeEntry offline [] ?v) = r" "fst (analyzeEntry offline [] ?w) = r"
    by simp_all
  moreover from fact have "settings (snd (analyzeEntry offline [] ?w)) = settings ?w"
    by blast
  ultimately show ?thesis
    by (simp add: fresh_world_def)
qed

section \<open>Loading the settings\<close>

text \<open>
  With nothing stored, or a text that cannot be parsed, the settings are the defaults,
  in which every field is defined. Whatever is stored, the result has the four top-level
  properties, and its \<open>providers\<close> is an object with both provider names.
\<close>

lemma defaults_complete: "every_field_defined DEFAULT_SETTINGS"
  by (simp add: every_field_defined_def AppSettings_fields_def DEFAULT_SETTINGS_def
      DEFAULT_PROVIDERS_def ascii_def)

lemma loadSettings_defaults:
  "localStorage w SETTINGS_KEY = None \<or> localStorage w SETTINGS_KEY = Some [] \<or>
   (\<exists>stored e. localStorage w SETTINGS_KEY = Some stored \<and> JSON_parse H stored = Inl e) \<Longrightarrow>
   fst (loadSettings H w) = DEFAULT_SETTINGS"
  by (auto simp add: loadSettings_def)

lemma dom_assign: "fst ` set (assign t s) = fst ` set t \<union> fst ` set s"
  unfolding assign_def
  by (induction s arbitrary: t) (simp_all add: AList.dom_update case_prod_beta)

lemma loadSettings_keys:
  "\<exists>kvs ps. fst (loadSettings H w) = JObj kvs \<and>
     {ascii ''activeProvider'', ascii ''providers'', ascii ''language'', ascii ''autoAnalyze''}
       \<subseteq> fst ` set kvs \<and>
     map_of kvs (ascii ''providers'') = Some (JObj ps) \<and>
     {ascii ''gemini'', ascii ''deepseek''} \<subseteq> fst ` set ps"
proof -
  have default: "\<exists>kvs ps. DEFAULT_SETTINGS = JObj kvs \<and>
     {ascii ''activeProvider'', ascii ''providers'', ascii ''language'', ascii ''autoAnalyze''}
       \<subseteq> fst ` set kvs \<and>
     map_of kvs (ascii ''providers'') = Some (JObj ps) \<and>
     {ascii ''gemini'', ascii ''deepseek''} \<subseteq> fst ` set ps"
    by (simp add: DEFAULT_SETTINGS_def DEFAULT_PROVIDERS_def ascii_def)
  have merged: "\<exists>kvs ps.
     JObj (assign (assign (assign [] (spread DEFAULT_SETTINGS)) (spread parsed))
             [(ascii ''providers'',
               JObj (assign (assign [] (spread DEFAULT_PROVIDERS)) (spread pp)))]) = JObj kvs \<and>
     {ascii ''activeProvider'', ascii ''providers'', ascii ''language'', ascii ''autoAnalyze''}
       \<subseteq> fst ` set kvs \<and>
     map_of kvs (ascii ''providers'') = Some (JObj ps) \<and>
     {ascii ''gemini'', ascii ''deepseek''} \<subseteq> fst ` set ps" for parsed pp
  proof -
    have "map_of (assign t [(k, v)]) k = Some v" for t :: "(jsstring \<times> jsval) list" and k v
      by (simp add: assign_def AList.update_conv')
    moreover have "{ascii ''gemini'', ascii ''deepseek''}
        \<subseteq> fst ` set (assign (assign [] (spread DEFAULT_PROVIDERS)) (spread pp))"
      by (simp add: dom_assign DEFAULT_PROVIDERS_def)
    moreover have "{ascii ''activeProvider'', ascii ''providers'', ascii ''language'',
          ascii ''autoAnalyze''}
        \<subseteq> fst ` set (assign (assign (assign [] (spread DEFAULT_SETTINGS)) (spread parsed))
             [(ascii ''providers'',
               JObj (assign (assign [] (spread DEFAULT_PROVIDERS)) (spread pp)))])"
      by (simp add: dom_assign DEFAULT_SETTINGS_def)
    ultimately show ?thesis by blast
  qed
  show ?thesis
    using default merged
    by (simp add: loadSettings_def split: option.splits sum.splits)
qed

lemma legacy_loaded:
  "fst (loadSettings (stub_host (Inl network_down) (Inl network_down) (Inr legacy_settings))
          (world_storing SETTINGS_KEY legacy_settings_text)) =
     JObj [(ascii ''activeProvider'', JStr (ascii ''deepseek'')),
           (ascii ''providers'',
            JObj [(ascii ''gemini'',
                   JObj [(ascii ''type'', JStr (ascii ''gemini'')),
                         (ascii ''apiKey'', JStr []),
                         (ascii ''model'', JStr (ascii ''gemini-2.0-flash'')),
                         (ascii ''enabled'', JBool False)]),
                  (ascii ''deepseek'', JObj [(ascii ''apiKey'', JStr (ascii ''sk-old''))])]),
           (ascii ''language'', JStr (ascii ''zh'')),
           (ascii ''autoAnalyze'', JBool False)]"
  by (simp add: loadSettings_def world_storing_def stub_host_def legacy_settings_def
      legacy_settings_text_def DEFAULT_SETTINGS_def DEFAULT_PROVIDERS_def assign_def ascii_def)

text \<open>
  C7. The claim is that after \<open>loadSettings\<close> every field of the settings, those of each
  provider's configuration included, has a value. The merge stops at the level of
  \<open>providers\<close>: a stored provider configuration replaces the default one whole. From the
  stored text \<open>{"providers":{"deepseek":{"apiKey":"sk-old"}}}\<close> the loaded
  \<open>providers.deepseek\<close> is \<open>{"apiKey":"sk-old"}\<close>, whose \<open>enabled\<close>, \<open>model\<close> and
  \<open>type\<close> are \<open>undefined\<close>.
\<close>

theorem legacy_provider_config_incomplete:
  "at_path
     (fst (loadSettings (stub_host (Inl network_down) (Inl network_down) (Inr legacy_settings))
             (world_storing SETTINGS_KEY legacy_settings_text)))
     [ascii ''providers'', ascii ''deepseek'', ascii ''enabled''] = Undefined \<and>
   at_path
     (fst (loadSettings (stub_host (Inl network_down) (Inl network_down) (Inr legacy_settings))
             (world_storing SETTINGS_KEY legacy_settings_text)))
     [ascii ''providers'', ascii ''deepseek'', ascii ''apiKey''] = JStr (ascii ''sk-old'') \<and>
   \<not> every_field_defined
       (fst (loadSettings (stub_host (Inl network_down) (Inl network_down) (Inr legacy_settings))
               (world_storing SETTINGS_KEY legacy_settings_text)))"
  unfolding legacy_loaded
  by (simp add: every_field_defined_def AppSettings_fields_def ascii_def)

section \<open>Saving a report\<close>

lemma loadReports_world:
  "localStorage (snd (loadReports H w)) = localStorage w"
  by (simp add: loadReports_def split: option.splits sum.splits)

lemma loadReports_empty:
  "localStorage w REPORTS_KEY = None \<or> localStorage w REPORTS_KEY = Some [] \<or>
   (\<exists>stored e. localStorage w REPORTS_KEY = Some stored \<and> JSON_parse H stored = Inl e) \<Longrightarrow>
   fst (loadReports H w) = JArr []"
  by (auto simp add: loadReports_def)

lemma texts_differ: "reports_text store_after_save \<noteq> reports_text full_store"
proof -
  have "[1..<51] = 1 # [2..<51]"
    by (simp add: upt_conv_Cons)
  then show ?thesis
    by (simp add: reports_text_def report_text_def sample_report_def store_after_save_def
        full_store_def join_Cons Number_toString.simps [of 0] Number_toString.simps [of "Suc 0"]
        ascii_def)
qed

lemma reports_text_nonempty: "reports_text (JArr rs) \<noteq> []"
  by (simp add: reports_text_def ascii_def)

lemma full_store_plus_one:
  "take 50 (sample_report 0 # map sample_report [1..<51]) =
     sample_report 0 # map sample_report [1..<50]"
  by (simp add: take_Cons' take_map)

text \<open>
  C10. When the stored reports load as a list, \<open>saveReport\<close> succeeds and stores under
  the reports key the JSON text of the first 50 elements of the new report followed by
  that list: a list of at most 50 reports whose first element is the new report. If the
  host reads that text back as the value it was made from, \<open>loadReports\<close> returns this
  list afterwards.
\<close>

theorem saveReport_keeps_50:
  "fst (loadReports H w) = JArr reports \<Longrightarrow>
   fst (saveReport H report w) = Inr () \<and>
   localStorage (snd (saveReport H report w)) =
     (localStorage w)(REPORTS_KEY \<mapsto> JSON_stringify H (JArr (take 50 (report # reports)))) \<and>
   take 50 (report # reports) = report # take 49 reports \<and>
   length (take 50 (report # reports)) \<le> 50 \<and>
   (JSON_stringify H (JArr (take 50 (report # reports))) \<noteq> [] \<and>
    JSON_parse H (JSON_stringify H (JArr (take 50 (report # reports)))) =
      Inr (JArr (take 50 (report # reports)))
    \<longrightarrow> fst (loadReports H (snd (saveReport H report w))) = JArr (take 50 (report # reports)))"
proof -
  assume loaded: "fst (loadReports H w) = JArr reports"
  obtain w' where w': "loadReports H w = (JArr reports, w')"
    using loaded by (cases "loadReports H w") simp
  have store: "localStorage w' = localStorage w"
    using loadReports_world [of H w] w' by simp
  have saved: "saveReport H report w =
      (Inr (), w'\<lparr>localStorage :=
                   (localStorage w')(REPORTS_KEY \<mapsto>
                      JSON_stringify H (JArr (take 50 (report # reports))))\<rparr>)"
    by (simp add: saveReport_def w' Let_def)
  have front: "take 50 (report # reports) = report # take 49 reports"
    by (simp add: take_Cons')
  have reload: "fst (loadReports H (snd (saveReport H report w))) =
      JArr (take 50 (report # reports))"
    if "JSON_stringify H (JArr (take 50 (report # reports))) \<noteq> []"
      and "JSON_parse H (JSON_stringify H (JArr (take 50 (report # reports)))) =
             Inr (JArr (take 50 (report # reports)))"
    using that by (simp add: saved loadReports_def del: take_Suc_Cons)
  from saved store front reload show ?thesis
    by simp
qed

text \<open>
  On the full store, saving \<open>r0\<close> writes the text of \<open>r0\<close>, \<open>r1\<close>, ..., \<open>r49\<close>: the new
  report is in front and \<open>r50\<close> is gone.
\<close>

theorem saveReport_keeps_50_witness:
  "fst (loadReports (reports_host [store_after_save, full_store])
          (world_storing REPORTS_KEY (reports_text full_store))) =
     JArr (map sample_report [1..<51]) \<and>
   fst (saveReport (reports_host [store_after_save, full_store]) (sample_report 0)
          (world_storing REPORTS_KEY (reports_text full_store))) = Inr () \<and>
   localStorage
     (snd (saveReport (reports_host [store_after_save, full_store]) (sample_report 0)
             (world_storing REPORTS_KEY (reports_text full_store)))) REPORTS_KEY =
     Some (reports_text (JArr (sample_report 0 # map sample_report [1..<50]))) \<and>
   fst (loadReports (reports_host [store_after_save, full_store])
          (snd (saveReport (reports_host [store_after_save, full_store]) (sample_report 0)
                  (world_storing REPORTS_KEY (reports_text full_store))))) =
     JArr (sample_report 0 # map sample_report [1..<50]) \<and>
   length (sample_report 0 # map sample_report [1..<50]) = 50"
proof -
  let ?H = "reports_host [store_after_save, full_store]"
  let ?w = "world_storing REPORTS_KEY (reports_text full_store)"
  let ?old = "map sample_report [1..<51]"
  let ?new = "sample_report 0 # map sample_report [1..<50]"
  have parse_old: "JSON_parse ?H (reports_text full_store) = Inr full_store"
    using texts_differ by (simp add: reports_host_def)
  have parse_new: "JSON_parse ?H (reports_text store_after_save) = Inr store_after_save"
    by (simp add: reports_host_def)
  have stringify: "JSON_stringify ?H v = reports_text v" for v
    by (simp add: reports_host_def)
  have loaded: "fst (loadReports ?H ?w) = JArr ?old"
    using parse_old reports_text_nonempty [of ?old]
    by (simp add: loadReports_def world_storing_def full_store_def del: upt_rec_numeral)
  have trimmed: "JArr (take 50 (sample_report 0 # ?old)) = store_after_save"
    unfolding full_store_plus_one store_after_save_def ..
  have nonempty: "JSON_stringify ?H (JArr (take 50 (sample_report 0 # ?old))) \<noteq> []"
    unfolding stringify by (rule reports_text_nonempty)
  have roundtrip: "JSON_parse ?H (JSON_stringify ?H (JArr (take 50 (sample_report 0 # ?old)))) =
      Inr (JArr (take 50 (sample_report 0 # ?old)))"
    unfolding stringify trimmed by (rule parse_new)
  note fact = saveReport_keeps_50 [OF loaded, of "sample_report 0"]
  from fact have saved: "fst (saveReport ?H (sample_report 0) ?w) = Inr ()"
    by blast
  from fact have stored: "localStorage (snd (saveReport ?H (sample_report 0) ?w)) =
      (localStorage ?w)(REPORTS_KEY \<mapsto>
         JSON_stringify ?H (JArr (take 50 (sample_report 0 # ?old))))"
    by blast
  from fact nonempty roundtrip
  have reload: "fst (loadReports ?H (snd (saveReport ?H (sample_report 0) ?w))) =
      JArr (take 50 (sample_report 0 # ?old))"
    by blast
  have slot: "localStorage (snd (saveReport ?H (sample_report 0) ?w)) REPORTS_KEY =
      Some (reports_text (JArr ?new))"
    unfolding stored stringify full_store_plus_one by simp
  have size: "length ?new = 50"
    by simp
  from loaded saved slot reload [unfolded full_store_plus_one] size show ?thesis
    by blast
qed

end
